theory Spec2Isabelle
  imports Complex_Main "HOL-Library.Multiset"
begin

section \<open>Python values\<close>

text \<open>
  The handlers of \<^verbatim>\<open>app.py\<close> receive Python objects decoded from JSON bodies, HTML
  forms and query strings, and hand Python objects to \<^verbatim>\<open>jsonify\<close>.  A float is a
  binary64 value: the real number it denotes, or one of the three special values.
  Strings are byte strings: digits and white space outside ASCII are not recognised.
\<close>

datatype pyfloat = Finite real | PosInf | NegInf | NaN

datatype pyval =
    PNone
  | PBool bool
  | PInt int
  | PFloat pyfloat
  | PStr string
  | PList "pyval list"
  | PDict "(string \<times> pyval) list"
  | PDatetime int

type_synonym pydict = "(string \<times> pyval) list"

datatype pyexn =
    ValueError | TypeError | KeyError | AttributeError | OverflowError
  | IntegrityError | ProgrammingError | DataError

text \<open>Sequencing of steps that may raise: the first exception ends the computation.\<close>

fun and_then :: "'e + 'a \<Rightarrow> ('a \<Rightarrow> 'e + 'b) \<Rightarrow> 'e + 'b" where
  "and_then (Inl e) f = Inl e"
| "and_then (Inr x) f = f x"

subsection \<open>\<^verbatim>\<open>str.strip\<close> and \<^verbatim>\<open>int(str)\<close>\<close>

definition is_space :: "char \<Rightarrow> bool" where
  "is_space c = ((9 \<le> (of_char c :: nat) \<and> (of_char c :: nat) \<le> 13)
               \<or> (28 \<le> (of_char c :: nat) \<and> (of_char c :: nat) \<le> 32))"

definition py_strip :: "string \<Rightarrow> string" where
  "py_strip s = rev (dropWhile is_space (rev (dropWhile is_space s)))"

definition is_digit :: "char \<Rightarrow> bool" where
  "is_digit c = (48 \<le> (of_char c :: nat) \<and> (of_char c :: nat) \<le> 57)"

definition digit_val :: "char \<Rightarrow> int" where
  "digit_val c = of_char c - 48"

text \<open>
  Python's \<^verbatim>\<open>digitpart ::= digit (["_"] digit)*\<close>.  The accumulator holds the value read
  so far and the number of digits read.
\<close>

fun digits_acc :: "string \<Rightarrow> int \<times> nat \<Rightarrow> (int \<times> nat) option" where
  "digits_acc [] acc = Some acc"
| "digits_acc (c # cs) (v, n) =
     (if is_digit c then digits_acc cs (10 * v + digit_val c, Suc n)
      else if c = CHR ''_'' \<and> cs \<noteq> [] \<and> is_digit (hd cs) then digits_acc cs (v, n)
      else None)"

definition digitpart :: "string \<Rightarrow> (int \<times> nat) option" where
  "digitpart s = (if s \<noteq> [] \<and> is_digit (hd s) then digits_acc s (0, 0) else None)"

definition signed_digitpart :: "string \<Rightarrow> int option" where
  "signed_digitpart t =
     (case t of
        [] \<Rightarrow> None
      | c # cs \<Rightarrow>
          if c = CHR ''-'' then map_option (\<lambda>(v, n). - v) (digitpart cs)
          else if c = CHR ''+'' then map_option fst (digitpart cs)
          else map_option fst (digitpart (c # cs)))"

definition int_of_str :: "string \<Rightarrow> int option" where
  "int_of_str s = signed_digitpart (py_strip s)"

text \<open>
  \<^verbatim>\<open>float(x)\<close> is Python's, not the repository's.  Which binary64 value a decimal string
  is rounded to (or that the string is refused), and which value an integer beyond
  \<open>2\<^sup>5\<^sup>3\<close> is rounded to (or that it overflows), are parameters of the embedding;
  an integer of magnitude at most \<open>2\<^sup>5\<^sup>3\<close> is a binary64 value itself.  In both
  fields \<open>None\<close> stands for the exception (\<^verbatim>\<open>ValueError\<close>, \<^verbatim>\<open>OverflowError\<close>).
\<close>

record to_float =
  float_of_str :: "string \<Rightarrow> pyfloat option"
  float_of_big_int :: "int \<Rightarrow> pyfloat option"

subsection \<open>Truth value, \<^verbatim>\<open>int()\<close>, \<^verbatim>\<open>float()\<close>, dictionary access\<close>

fun truthy :: "pyval \<Rightarrow> bool" where
  "truthy PNone = False"
| "truthy (PBool b) = b"
| "truthy (PInt n) = (n \<noteq> 0)"
| "truthy (PFloat f) = (f \<noteq> Finite 0)"
| "truthy (PStr s) = (s \<noteq> [])"
| "truthy (PList xs) = (xs \<noteq> [])"
| "truthy (PDict d) = (d \<noteq> [])"
| "truthy (PDatetime t) = True"

text \<open>\<^verbatim>\<open>int(x)\<close> truncates a float towards zero.\<close>

definition py_trunc :: "real \<Rightarrow> int" where
  "py_trunc x = (if 0 \<le> x then \<lfloor>x\<rfloor> else \<lceil>x\<rceil>)"

fun py_int :: "pyval \<Rightarrow> pyexn + int" where
  "py_int PNone = Inl TypeError"
| "py_int (PBool b) = Inr (if b then 1 else 0)"
| "py_int (PInt n) = Inr n"
| "py_int (PFloat f) =
     (case f of Finite x \<Rightarrow> Inr (py_trunc x) | NaN \<Rightarrow> Inl ValueError | _ \<Rightarrow> Inl OverflowError)"
| "py_int (PStr s) = (case int_of_str s of None \<Rightarrow> Inl ValueError | Some n \<Rightarrow> Inr n)"
| "py_int (PList xs) = Inl TypeError"
| "py_int (PDict d) = Inl TypeError"
| "py_int (PDatetime t) = Inl TypeError"

fun py_float :: "to_float \<Rightarrow> pyval \<Rightarrow> pyexn + pyfloat" where
  "py_float conv PNone = Inl TypeError"
| "py_float conv (PBool b) = Inr (Finite (if b then 1 else 0))"
| "py_float conv (PInt n) =
     (if \<bar>n\<bar> \<le> 2 ^ 53 then Inr (Finite (of_int n))
      else (case float_of_big_int conv n of None \<Rightarrow> Inl OverflowError | Some f \<Rightarrow> Inr f))"
| "py_float conv (PFloat f) = Inr f"
| "py_float conv (PStr s) =
     (case float_of_str conv s of None \<Rightarrow> Inl ValueError | Some f \<Rightarrow> Inr f)"
| "py_float conv (PList xs) = Inl TypeError"
| "py_float conv (PDict d) = Inl TypeError"
| "py_float conv (PDatetime t) = Inl TypeError"

text \<open>\<^verbatim>\<open>d.get(k)\<close>, \<^verbatim>\<open>d.get(k, default)\<close>, \<^verbatim>\<open>d[k]\<close> and \<^verbatim>\<open>k in d\<close>.\<close>

definition dict_get_default :: "pydict \<Rightarrow> string \<Rightarrow> pyval \<Rightarrow> pyval" where
  "dict_get_default d k dflt = (case map_of d k of None \<Rightarrow> dflt | Some v \<Rightarrow> v)"

definition dict_get :: "pydict \<Rightarrow> string \<Rightarrow> pyval" where
  "dict_get d k = dict_get_default d k PNone"

definition dict_item :: "pydict \<Rightarrow> string \<Rightarrow> pyexn + pyval" where
  "dict_item d k = (case map_of d k of None \<Rightarrow> Inl KeyError | Some v \<Rightarrow> Inr v)"

definition has_key :: "pydict \<Rightarrow> string \<Rightarrow> bool" where
  "has_key d k = (map_of d k \<noteq> None)"

text \<open>
  \<^verbatim>\<open>request.args.get(k)\<close> and \<^verbatim>\<open>request.args.get(k, default)\<close>: the values of a query
  string are strings.
\<close>

definition args_get_default :: "(string \<times> string) list \<Rightarrow> string \<Rightarrow> pyval \<Rightarrow> pyval" where
  "args_get_default args k dflt = (case map_of args k of None \<Rightarrow> dflt | Some s \<Rightarrow> PStr s)"

definition args_get :: "(string \<times> string) list \<Rightarrow> string \<Rightarrow> pyval" where
  "args_get args k = args_get_default args k PNone"

text \<open>\<^verbatim>\<open>(x or '').strip()\<close>: only a string has the method.\<close>

definition or_empty_strip :: "pyval \<Rightarrow> pyexn + string" where
  "or_empty_strip x =
     (if truthy x then (case x of PStr s \<Rightarrow> Inr (py_strip s) | _ \<Rightarrow> Inl AttributeError)
      else Inr [])"

text \<open>\<^verbatim>\<open>x in (None, '')\<close> and \<^verbatim>\<open>x in (None, '', '0', 0)\<close>, by Python's \<^verbatim>\<open>==\<close>.\<close>

definition in_none_empty :: "pyval \<Rightarrow> bool" where
  "in_none_empty x = (x = PNone \<or> x = PStr [])"

definition in_none_empty_zero :: "pyval \<Rightarrow> bool" where
  "in_none_empty_zero x =
     (x = PNone \<or> x = PStr [] \<or> x = PStr ''0''
      \<or> x = PInt 0 \<or> x = PBool False \<or> x = PFloat (Finite 0))"

section \<open>The two tables\<close>

text \<open>
  A table is the list of its rows in insertion order; \<^verbatim>\<open>AUTO_INCREMENT\<close> is a counter
  kept with the table, and \<^verbatim>\<open>CURRENT_TIMESTAMP\<close> is the clock of the database server.
  A statement that raises leaves the tables as they were.  The column
  \<^verbatim>\<open>positions.timestamp\<close> is a signed 32-bit \<^verbatim>\<open>INT\<close>: what the server does with a
  value outside its range depends on its \<^verbatim>\<open>sql_mode\<close>, which the repository does not
  set and which is therefore part of the store: in strict mode (the server's default) the
  statement raises \<^verbatim>\<open>DataError\<close>, otherwise the nearest bound is stored.  The length of
  \<^verbatim>\<open>VARCHAR(100)\<close> and the range of the other \<^verbatim>\<open>INT\<close> columns are not enforced here.
\<close>

record satellite =
  s_id :: int
  s_norad_id :: int
  s_name :: string
  s_created_at :: int

record position =
  p_id :: int
  p_satellite_id :: int
  p_timestamp :: int
  p_latitude :: pyfloat
  p_longitude :: pyfloat
  p_altitude_km :: "pyfloat option"
  p_velocity_kmh :: "pyfloat option"
  p_created_at :: int

record db =
  satellites :: "satellite list"
  positions :: "position list"
  satellites_auto_increment :: int
  positions_auto_increment :: int
  current_timestamp :: int
  sql_strict :: bool

definition fits_int :: "int \<Rightarrow> bool" where
  "fits_int x = (- 2147483648 \<le> x \<and> x \<le> 2147483647)"

definition store_int :: "bool \<Rightarrow> int \<Rightarrow> pyexn + int" where
  "store_int strict x =
     (if fits_int x then Inr x
      else if strict then Inl DataError
      else Inr (max (- 2147483648) (min x 2147483647)))"

text \<open>\<^verbatim>\<open>norad_id INT UNIQUE\<close>: the constraint every reachable state satisfies.\<close>

definition unique_norad :: "db \<Rightarrow> bool" where
  "unique_norad d = distinct (map s_norad_id (satellites d))"

text \<open>\<^verbatim>\<open>SELECT id FROM satellites WHERE norad_id=%s\<close> followed by \<^verbatim>\<open>fetchone()\<close>.\<close>

definition select_id_by_norad :: "db \<Rightarrow> int \<Rightarrow> int option" where
  "select_id_by_norad d n =
     (case filter (\<lambda>s. s_norad_id s = n) (satellites d) of
        [] \<Rightarrow> None
      | s # rest \<Rightarrow> Some (s_id s))"

text \<open>
  \<^verbatim>\<open>INSERT INTO satellites (norad_id, name) VALUES (%s, %s)\<close>; the result is
  \<^verbatim>\<open>lastrowid\<close>, or \<^verbatim>\<open>IntegrityError\<close> when the external identifier is taken.
\<close>

definition insert_satellite :: "int \<Rightarrow> string \<Rightarrow> db \<Rightarrow> (pyexn + int) \<times> db" where
  "insert_satellite n nm d =
     (if n \<in> set (map s_norad_id (satellites d)) then (Inl IntegrityError, d)
      else (Inr (satellites_auto_increment d),
            d\<lparr>satellites := satellites d @
                 [\<lparr>s_id = satellites_auto_increment d, s_norad_id = n, s_name = nm,
                   s_created_at = current_timestamp d\<rparr>],
              satellites_auto_increment := satellites_auto_increment d + 1\<rparr>))"

text \<open>
  The driver refuses to send \<^verbatim>\<open>inf\<close> and \<^verbatim>\<open>nan\<close> to the server
  (\<^verbatim>\<open>ProgrammingError\<close>), so a \<^verbatim>\<open>DOUBLE\<close> column only ever holds finite values.
\<close>

fun is_finite :: "pyfloat \<Rightarrow> bool" where
  "is_finite (Finite x) = True"
| "is_finite PosInf = False"
| "is_finite NegInf = False"
| "is_finite NaN = False"

fun opt_finite :: "pyfloat option \<Rightarrow> bool" where
  "opt_finite None = True"
| "opt_finite (Some f) = is_finite f"

text \<open>
  \<^verbatim>\<open>INSERT INTO positions (satellite_id, timestamp, latitude, longitude, altitude_km,
  velocity_kmh) VALUES (...)\<close>, with the foreign key to \<^verbatim>\<open>satellites(id)\<close>.
\<close>

definition insert_position ::
  "int \<Rightarrow> int \<Rightarrow> pyfloat \<Rightarrow> pyfloat \<Rightarrow> pyfloat option \<Rightarrow> pyfloat option \<Rightarrow> db
    \<Rightarrow> (pyexn + int) \<times> db" where
  "insert_position sid ts lat lon alt vel d =
     (if \<not> (is_finite lat \<and> is_finite lon \<and> opt_finite alt \<and> opt_finite vel)
        then (Inl ProgrammingError, d)
      else (case store_int (sql_strict d) ts of
              Inl e \<Rightarrow> (Inl e, d)
            | Inr stored_ts \<Rightarrow>
                if sid \<notin> set (map s_id (satellites d)) then (Inl IntegrityError, d)
                else (Inr (positions_auto_increment d),
                      d\<lparr>positions := positions d @
                           [\<lparr>p_id = positions_auto_increment d, p_satellite_id = sid,
                             p_timestamp = stored_ts, p_latitude = lat, p_longitude = lon,
                             p_altitude_km = alt, p_velocity_kmh = vel,
                             p_created_at = current_timestamp d\<rparr>],
                        positions_auto_increment := positions_auto_increment d + 1\<rparr>)))"

text \<open>
  \<^verbatim>\<open>FROM positions p JOIN satellites s ON s.id = p.satellite_id WHERE s.norad_id=%s\<close>:
  one row per matching pair, projected to the position.
\<close>

definition positions_of_norad :: "db \<Rightarrow> int \<Rightarrow> position list" where
  "positions_of_norad d n =
     concat (map (\<lambda>p. map (\<lambda>s. p)
                        (filter (\<lambda>s. s_id s = p_satellite_id p \<and> s_norad_id s = n)
                                (satellites d)))
                 (positions d))"

text \<open>
  \<^verbatim>\<open>ORDER BY timestamp DESC\<close>.  SQL leaves the order of rows with equal timestamps to
  the engine; the embedding keeps them in insertion order.
\<close>

definition order_by_timestamp_desc :: "position list \<Rightarrow> position list" where
  "order_by_timestamp_desc rows = sort_key (\<lambda>p. - p_timestamp p) rows"

definition clamp_limit :: "int \<Rightarrow> int \<Rightarrow> int" where
  "clamp_limit limit hi = max 1 (min limit hi)"

section \<open>Responses\<close>

text \<open>
  A handler returns the object given to \<^verbatim>\<open>jsonify\<close> with the status code, or ends in
  an exception nobody catches.
\<close>

datatype response = Response pyval nat | Unhandled pyexn

definition error_json :: "string \<Rightarrow> pyval" where
  "error_json msg = PDict [(''error'', PStr msg)]"

definition opt_float :: "pyfloat option \<Rightarrow> pyval" where
  "opt_float x = (case x of None \<Rightarrow> PNone | Some f \<Rightarrow> PFloat f)"

definition reading_json :: "string \<Rightarrow> int \<Rightarrow> pyval \<Rightarrow> pyval \<Rightarrow> pyval \<Rightarrow> pyval \<Rightarrow> pyval" where
  "reading_json src ts lat lon alt vel =
     PDict [(''source'', PStr src), (''timestamp'', PInt ts), (''latitude'', lat),
            (''longitude'', lon), (''altitude_km'', alt), (''velocity_kmh'', vel)]"

text \<open>The five columns selected by the history queries, as a \<^verbatim>\<open>DictCursor\<close> row.\<close>

definition history_row :: "position \<Rightarrow> pyval" where
  "history_row p =
     PDict [(''timestamp'', PInt (p_timestamp p)), (''latitude'', PFloat (p_latitude p)),
            (''longitude'', PFloat (p_longitude p)),
            (''altitude_km'', opt_float (p_altitude_km p)),
            (''velocity_kmh'', opt_float (p_velocity_kmh p))]"

text \<open>The eight columns selected by \<^verbatim>\<open>list_positions\<close>.\<close>

definition position_row :: "position \<Rightarrow> pyval" where
  "position_row p =
     PDict [(''id'', PInt (p_id p)), (''satellite_id'', PInt (p_satellite_id p)),
            (''timestamp'', PInt (p_timestamp p)), (''latitude'', PFloat (p_latitude p)),
            (''longitude'', PFloat (p_longitude p)),
            (''altitude_km'', opt_float (p_altitude_km p)),
            (''velocity_kmh'', opt_float (p_velocity_kmh p)),
            (''created_at'', PDatetime (p_created_at p))]"

section \<open>Identity resolver\<close>

text \<open>
  \<^verbatim>\<open>get_satellite_id(norad_id, name)\<close>.  The \<^verbatim>\<open>except IntegrityError\<close> branch is only
  reached when another request inserts the same external identifier between the
  \<^verbatim>\<open>SELECT\<close> and the \<^verbatim>\<open>INSERT\<close>, so the statements of other requests that run between
  the statements of this function are parameters: \<open>others1\<close> runs between the first
  \<^verbatim>\<open>SELECT\<close> and the \<^verbatim>\<open>INSERT\<close>, \<open>others2\<close> between a failed \<^verbatim>\<open>INSERT\<close> and the second
  \<^verbatim>\<open>SELECT\<close>.  When the second \<^verbatim>\<open>SELECT\<close> finds nothing, \<^verbatim>\<open>c.fetchone()['id']\<close> subscripts
  \<^verbatim>\<open>None\<close>.  This is the only function of the source that handles a race; every other
  handler is run as one uninterrupted step.
\<close>

definition get_satellite_id ::
  "(db \<Rightarrow> db) \<Rightarrow> (db \<Rightarrow> db) \<Rightarrow> int \<Rightarrow> string \<Rightarrow> db \<Rightarrow> (pyexn + int) \<times> db" where
  "get_satellite_id others1 others2 norad nm d =
     (case select_id_by_norad d norad of
        Some sid \<Rightarrow> (Inr sid, d)
      | None \<Rightarrow>
          (case insert_satellite norad nm (others1 d) of
             (Inr sid, d1) \<Rightarrow> (Inr sid, d1)
           | (Inl e, d1) \<Rightarrow>
               if e = IntegrityError
               then (case select_id_by_norad (others2 d1) norad of
                       Some sid \<Rightarrow> (Inr sid, others2 d1)
                     | None \<Rightarrow> (Inl TypeError, others2 d1))
               else (Inl e, d1)))"

section \<open>Ingestion: \<^verbatim>\<open>GET /api/iss\<close>\<close>

text \<open>
  The outcome of the \<^verbatim>\<open>try\<close> block (\<^verbatim>\<open>requests.get\<close>, \<^verbatim>\<open>raise_for_status\<close>, \<^verbatim>\<open>r.json()\<close>) is
  an input: either some exception was raised, or the body decoded to a JSON object.
  Its \<^verbatim>\<open>name\<close>, a string in the upstream API, is given apart from the other keys.
\<close>

datatype fetch = FetchFailed | FetchOk "string option" pydict

definition tracked_norad :: int where
  "tracked_norad = 25544"

text \<open>The fallback query: \<^verbatim>\<open>ORDER BY p.timestamp DESC LIMIT 1\<close>, then \<^verbatim>\<open>fetchone()\<close>.\<close>

definition latest_position :: "db \<Rightarrow> int \<Rightarrow> position option" where
  "latest_position d n =
     (case take 1 (order_by_timestamp_desc (positions_of_norad d n)) of
        [] \<Rightarrow> None
      | p # rest \<Rightarrow> Some p)"

definition cache_json :: "position \<Rightarrow> pyval" where
  "cache_json p =
     reading_json ''cache'' (p_timestamp p) (PFloat (p_latitude p)) (PFloat (p_longitude p))
       (opt_float (p_altitude_km p)) (opt_float (p_velocity_kmh p))"

text \<open>Lines 124 to 128: the five conversions, in the order they are evaluated.\<close>

definition parse_reading ::
  "to_float \<Rightarrow> pydict \<Rightarrow> pyexn + (int \<times> pyfloat \<times> pyfloat \<times> pyfloat \<times> pyfloat)" where
  "parse_reading conv data =
     and_then (dict_item data ''timestamp'') (\<lambda>tv.
     and_then (py_float conv tv) (\<lambda>tf.
     and_then (py_int (PFloat tf)) (\<lambda>ts.
     and_then (dict_item data ''latitude'') (\<lambda>lv.
     and_then (py_float conv lv) (\<lambda>lat.
     and_then (dict_item data ''longitude'') (\<lambda>ov.
     and_then (py_float conv ov) (\<lambda>lon.
     and_then (py_float conv (dict_get_default data ''altitude'' (PInt 0))) (\<lambda>alt.
     and_then (py_float conv (dict_get_default data ''velocity'' (PInt 0))) (\<lambda>vel.
     Inr (ts, lat, lon, alt, vel))))))))))"

definition api_iss ::
  "to_float \<Rightarrow> fetch \<Rightarrow> (db \<Rightarrow> db) \<Rightarrow> (db \<Rightarrow> db) \<Rightarrow> db \<Rightarrow> response \<times> db" where
  "api_iss conv fetched others1 others2 d =
     (case fetched of
        FetchFailed \<Rightarrow>
          (case latest_position d tracked_norad of
             Some row \<Rightarrow> (Response (cache_json row) 200, d)
           | None \<Rightarrow> (Response (error_json ''Failed to fetch ISS position'') 502, d))
      | FetchOk nm data \<Rightarrow>
          (case get_satellite_id others1 others2 tracked_norad
                  (case nm of None \<Rightarrow> ''ISS'' | Some n \<Rightarrow> n) d of
             (Inl e, d1) \<Rightarrow> (Unhandled e, d1)
           | (Inr sid, d1) \<Rightarrow>
               (case parse_reading conv data of
                  Inl e \<Rightarrow> (Unhandled e, d1)
                | Inr (ts, lat, lon, alt, vel) \<Rightarrow>
                    (case insert_position sid ts lat lon (Some alt) (Some vel) d1 of
                       (Inl e, d2) \<Rightarrow> (Unhandled e, d2)
                     | (Inr pid, d2) \<Rightarrow>
                         (Response (reading_json ''live'' ts (PFloat lat) (PFloat lon)
                                      (PFloat alt) (PFloat vel)) 200, d2)))))"

section \<open>History: \<^verbatim>\<open>GET /api/history\<close>\<close>

text \<open>
  \<^verbatim>\<open>fetchall()\<close> of the \<^verbatim>\<open>DictCursor\<close> returns the list of the rows as dictionaries, but
  the empty tuple when the query selects no row; a tuple has no \<^verbatim>\<open>reverse\<close>, so
  \<^verbatim>\<open>rows.reverse()\<close> raises \<^verbatim>\<open>AttributeError\<close> then.
\<close>

definition api_history :: "(string \<times> string) list \<Rightarrow> db \<Rightarrow> response" where
  "api_history args d =
     (case py_int (args_get_default args ''limit'' (PInt 50)) of
        Inl e \<Rightarrow> Unhandled e
      | Inr limit \<Rightarrow>
          (case take (nat (clamp_limit limit 1000))
                  (order_by_timestamp_desc (positions_of_norad d tracked_norad)) of
             [] \<Rightarrow> Unhandled AttributeError
           | row # rest \<Rightarrow> Response (PList (map history_row (rev (row # rest)))) 200))"

section \<open>Record management: satellites\<close>

definition create_satellite :: "pydict \<Rightarrow> db \<Rightarrow> response \<times> db" where
  "create_satellite data d =
     (case or_empty_strip (dict_get data ''name'') of
        Inl e \<Rightarrow> (Unhandled e, d)
      | Inr nm \<Rightarrow>
          if nm = [] \<or> dict_get data ''norad_id'' = PNone
          then (Response (error_json ''name and norad_id are required'') 400, d)
          else (case py_int (dict_get data ''norad_id'') of
                  Inl e \<Rightarrow>
                    if e = ValueError
                    then (Response (error_json ''norad_id must be integer'') 400, d)
                    else (Unhandled e, d)
                | Inr norad \<Rightarrow>
                    (case insert_satellite norad nm d of
                       (Inl e, d1) \<Rightarrow>
                         if e = IntegrityError
                         then (Response (error_json ''norad_id already exists'') 409, d1)
                         else (Unhandled e, d1)
                     | (Inr sid, d1) \<Rightarrow>
                         (Response (PDict [(''id'', PInt sid), (''norad_id'', PInt norad),
                                           (''name'', PStr nm)]) 201, d1))))"

text \<open>
  The \<^verbatim>\<open>fields\<close> and \<^verbatim>\<open>values\<close> lists of \<^verbatim>\<open>update_satellite\<close>: one optional assignment per
  column, in the order the source collects them.
\<close>

record satellite_patch =
  set_name :: "string option"
  set_norad_id :: "int option"

definition satellite_fields :: "pydict \<Rightarrow> response + satellite_patch" where
  "satellite_fields data =
     and_then
       (if has_key data ''name''
        then (case or_empty_strip (dict_get data ''name'') of
                Inl e \<Rightarrow> Inl (Unhandled e)
              | Inr nm \<Rightarrow> Inr (Some nm))
        else Inr None) (\<lambda>nm.
     and_then
       (if has_key data ''norad_id''
        then (case py_int (dict_get data ''norad_id'') of
                Inl e \<Rightarrow>
                  if e = ValueError then Inl (Response (error_json ''norad_id must be integer'') 400)
                  else Inl (Unhandled e)
              | Inr n \<Rightarrow> Inr (Some n))
        else Inr None) (\<lambda>norad.
     if nm = None \<and> norad = None then Inl (Response (error_json ''no fields to update'') 400)
     else Inr \<lparr>set_name = nm, set_norad_id = norad\<rparr>))"

definition apply_satellite_patch :: "satellite_patch \<Rightarrow> satellite \<Rightarrow> satellite" where
  "apply_satellite_patch patch s =
     s\<lparr>s_name := (case set_name patch of None \<Rightarrow> s_name s | Some nm \<Rightarrow> nm),
       s_norad_id := (case set_norad_id patch of None \<Rightarrow> s_norad_id s | Some n \<Rightarrow> n)\<rparr>"

text \<open>
  \<^verbatim>\<open>UPDATE satellites SET ... WHERE id=%s\<close>.  The result is \<^verbatim>\<open>rowcount\<close>, which for an
  \<^verbatim>\<open>UPDATE\<close> counts the rows whose stored values changed (the connection is opened
  without the found-rows flag), or \<^verbatim>\<open>IntegrityError\<close> when the new external identifier
  belongs to another row.
\<close>

definition update_satellites_where_id ::
  "int \<Rightarrow> satellite_patch \<Rightarrow> db \<Rightarrow> (pyexn + nat) \<times> db" where
  "update_satellites_where_id sid patch d =
     (if \<exists>s \<in> set (satellites d). s_id s = sid \<and>
           (case set_norad_id patch of
              None \<Rightarrow> False
            | Some n \<Rightarrow> n \<noteq> s_norad_id s \<and> n \<in> set (map s_norad_id (satellites d)))
      then (Inl IntegrityError, d)
      else (Inr (length (filter (\<lambda>s. s_id s = sid \<and> apply_satellite_patch patch s \<noteq> s)
                                (satellites d))),
            d\<lparr>satellites := map (\<lambda>s. if s_id s = sid then apply_satellite_patch patch s else s)
                                (satellites d)\<rparr>))"

definition update_satellite :: "int \<Rightarrow> pydict \<Rightarrow> db \<Rightarrow> response \<times> db" where
  "update_satellite sid data d =
     (case satellite_fields data of
        Inl early \<Rightarrow> (early, d)
      | Inr patch \<Rightarrow>
          (case update_satellites_where_id sid patch d of
             (Inl e, d1) \<Rightarrow>
               if e = IntegrityError
               then (Response (error_json ''norad_id already exists'') 409, d1)
               else (Unhandled e, d1)
           | (Inr rowcount, d1) \<Rightarrow>
               if rowcount = 0 then (Response (error_json ''satellite not found'') 404, d1)
               else (Response (PDict [(''updated'', PBool True)]) 200, d1)))"

text \<open>
  \<^verbatim>\<open>DELETE FROM satellites WHERE id=%s\<close>, with \<^verbatim>\<open>ON DELETE CASCADE\<close> on the positions
  that reference a deleted row.  The result is \<^verbatim>\<open>rowcount\<close>.
\<close>

definition delete_satellites_where_id :: "int \<Rightarrow> db \<Rightarrow> nat \<times> db" where
  "delete_satellites_where_id sid d =
     (length (filter (\<lambda>s. s_id s = sid) (satellites d)),
      if sid \<in> set (map s_id (satellites d))
      then d\<lparr>satellites := filter (\<lambda>s. s_id s \<noteq> sid) (satellites d),
             positions := filter (\<lambda>p. p_satellite_id p \<noteq> sid) (positions d)\<rparr>
      else d)"

definition delete_satellite :: "int \<Rightarrow> db \<Rightarrow> response \<times> db" where
  "delete_satellite sid d =
     (case delete_satellites_where_id sid d of
        (deleted, d1) \<Rightarrow>
          if deleted = 0 then (Response (error_json ''satellite not found'') 404, d1)
          else (Response (PDict [(''deleted'', PBool True)]) 200, d1))"

section \<open>Record management: positions\<close>

text \<open>The final query of \<^verbatim>\<open>list_positions\<close>, once \<^verbatim>\<open>sat_id\<close> is settled.\<close>

definition select_positions :: "pyval \<Rightarrow> int \<Rightarrow> db \<Rightarrow> response" where
  "select_positions sat_id limit d =
     (if \<not> truthy sat_id
      then Response (error_json ''satellite_id or norad_id required'') 400
      else (case py_int sat_id of
              Inl e \<Rightarrow>
                if e = ValueError then Response (error_json ''satellite_id must be integer'') 400
                else Unhandled e
            | Inr sid \<Rightarrow>
                Response (PList (map position_row
                  (take (nat limit)
                     (order_by_timestamp_desc
                        (filter (\<lambda>p. p_satellite_id p = sid) (positions d)))))) 200))"

definition list_positions :: "(string \<times> string) list \<Rightarrow> db \<Rightarrow> response" where
  "list_positions args d =
     (case py_int (args_get_default args ''limit'' (PInt 50)) of
        Inl e \<Rightarrow> Unhandled e
      | Inr limit0 \<Rightarrow>
          if truthy (args_get args ''norad_id'') \<and> \<not> truthy (args_get args ''satellite_id'')
          then (case py_int (args_get args ''norad_id'') of
                  Inl e \<Rightarrow>
                    if e = ValueError then Response (error_json ''norad_id must be integer'') 400
                    else Unhandled e
                | Inr norad \<Rightarrow>
                    (case select_id_by_norad d norad of
                       None \<Rightarrow> Response (PList []) 200
                     | Some sid \<Rightarrow> select_positions (PInt sid) (clamp_limit limit0 1000) d))
          else select_positions (args_get args ''satellite_id'') (clamp_limit limit0 1000) d)"

text \<open>
  \<^verbatim>\<open>create_position\<close>; \<open>now\<close> is \<^verbatim>\<open>int(time.time())\<close> at the moment of the request.  Each
  step either returns early with a response or yields a value.
\<close>

definition position_satellite_id :: "pydict \<Rightarrow> response + int" where
  "position_satellite_id data =
     (case py_int (dict_get data ''satellite_id'') of
        Inl e \<Rightarrow>
          if e = TypeError \<or> e = ValueError
          then Inl (Response (error_json ''satellite_id is required (int)'') 400)
          else Inl (Unhandled e)
      | Inr sid \<Rightarrow> Inr sid)"

definition position_timestamp :: "int \<Rightarrow> pydict \<Rightarrow> response + int" where
  "position_timestamp now data =
     (if in_none_empty_zero (dict_get data ''timestamp'') then Inr now
      else (case py_int (dict_get data ''timestamp'') of
              Inl e \<Rightarrow>
                if e = ValueError
                then Inl (Response (error_json ''timestamp must be unix seconds'') 400)
                else Inl (Unhandled e)
            | Inr ts \<Rightarrow> Inr ts))"

definition position_lat_lon :: "to_float \<Rightarrow> pydict \<Rightarrow> response + (pyfloat \<times> pyfloat)" where
  "position_lat_lon conv data =
     (case and_then (py_float conv (dict_get data ''latitude'')) (\<lambda>lat.
           and_then (py_float conv (dict_get data ''longitude'')) (\<lambda>lon. Inr (lat, lon))) of
        Inl e \<Rightarrow>
          if e = TypeError \<or> e = ValueError
          then Inl (Response (error_json ''latitude and longitude are required numbers'') 400)
          else Inl (Unhandled e)
      | Inr ll \<Rightarrow> Inr ll)"

definition optional_float :: "to_float \<Rightarrow> pyval \<Rightarrow> response + pyfloat option" where
  "optional_float conv x =
     (if in_none_empty x then Inr None
      else (case py_float conv x of Inl e \<Rightarrow> Inl (Unhandled e) | Inr f \<Rightarrow> Inr (Some f)))"

definition create_position ::
  "to_float \<Rightarrow> int \<Rightarrow> pydict \<Rightarrow> db \<Rightarrow> response \<times> db" where
  "create_position conv now data d =
     (if data = [] then (Response (error_json ''no data provided'') 400, d)
      else
       (case
          and_then (position_satellite_id data) (\<lambda>sid.
          and_then (position_timestamp now data) (\<lambda>ts.
          and_then (position_lat_lon conv data) (\<lambda>(lat, lon).
          and_then (optional_float conv (dict_get data ''altitude_km'')) (\<lambda>alt.
          and_then (optional_float conv (dict_get data ''velocity_kmh'')) (\<lambda>vel.
          Inr (sid, ts, lat, lon, alt, vel))))))
        of
          Inl early \<Rightarrow> (early, d)
        | Inr (sid, ts, lat, lon, alt, vel) \<Rightarrow>
            if sid \<notin> set (map s_id (satellites d))
            then (Response (error_json ''satellite not found'') 404, d)
            else (case insert_position sid ts lat lon alt vel d of
                    (Inl e, d1) \<Rightarrow> (Unhandled e, d1)
                  | (Inr pid, d1) \<Rightarrow>
                      (Response (PDict [(''id'', PInt pid), (''satellite_id'', PInt sid),
                                        (''timestamp'', PInt ts), (''latitude'', PFloat lat),
                                        (''longitude'', PFloat lon),
                                        (''altitude_km'', opt_float alt),
                                        (''velocity_kmh'', opt_float vel)]) 201, d1))))"

text \<open>
  The \<^verbatim>\<open>fields\<close> and \<^verbatim>\<open>values\<close> lists of \<^verbatim>\<open>update_position_row\<close>.  For the two nullable
  columns a present assignment may set \<^verbatim>\<open>NULL\<close>.
\<close>

record position_patch =
  set_timestamp :: "int option"
  set_latitude :: "pyfloat option"
  set_longitude :: "pyfloat option"
  set_altitude_km :: "pyfloat option option"
  set_velocity_kmh :: "pyfloat option option"

definition field_int :: "pydict \<Rightarrow> string \<Rightarrow> string \<Rightarrow> response + int option" where
  "field_int data k msg =
     (if has_key data k
      then (case py_int (dict_get data k) of
              Inl e \<Rightarrow> if e = ValueError then Inl (Response (error_json msg) 400)
                       else Inl (Unhandled e)
            | Inr n \<Rightarrow> Inr (Some n))
      else Inr None)"

definition field_float ::
  "to_float \<Rightarrow> pydict \<Rightarrow> string \<Rightarrow> string \<Rightarrow> response + pyfloat option" where
  "field_float conv data k msg =
     (if has_key data k
      then (case py_float conv (dict_get data k) of
              Inl e \<Rightarrow> if e = ValueError then Inl (Response (error_json msg) 400)
                       else Inl (Unhandled e)
            | Inr f \<Rightarrow> Inr (Some f))
      else Inr None)"

definition field_optional_float ::
  "to_float \<Rightarrow> pydict \<Rightarrow> string \<Rightarrow> response + pyfloat option option" where
  "field_optional_float conv data k =
     (if has_key data k
      then (case optional_float conv (dict_get data k) of
              Inl early \<Rightarrow> Inl early
            | Inr v \<Rightarrow> Inr (Some v))
      else Inr None)"

definition position_fields :: "to_float \<Rightarrow> pydict \<Rightarrow> response + position_patch" where
  "position_fields conv data =
     and_then (field_int data ''timestamp'' ''timestamp must be int'') (\<lambda>ts.
     and_then (field_float conv data ''latitude'' ''latitude must be number'') (\<lambda>lat.
     and_then (field_float conv data ''longitude'' ''longitude must be number'') (\<lambda>lon.
     and_then (field_optional_float conv data ''altitude_km'') (\<lambda>alt.
     and_then (field_optional_float conv data ''velocity_kmh'') (\<lambda>vel.
     if ts = None \<and> lat = None \<and> lon = None \<and> alt = None \<and> vel = None
     then Inl (Response (error_json ''no fields to update'') 400)
     else Inr \<lparr>set_timestamp = ts, set_latitude = lat, set_longitude = lon,
               set_altitude_km = alt, set_velocity_kmh = vel\<rparr>)))))"

definition apply_position_patch :: "position_patch \<Rightarrow> position \<Rightarrow> position" where
  "apply_position_patch patch p =
     p\<lparr>p_timestamp := (case set_timestamp patch of None \<Rightarrow> p_timestamp p | Some t \<Rightarrow> t),
       p_latitude := (case set_latitude patch of None \<Rightarrow> p_latitude p | Some x \<Rightarrow> x),
       p_longitude := (case set_longitude patch of None \<Rightarrow> p_longitude p | Some x \<Rightarrow> x),
       p_altitude_km := (case set_altitude_km patch of None \<Rightarrow> p_altitude_km p | Some x \<Rightarrow> x),
       p_velocity_kmh := (case set_velocity_kmh patch of None \<Rightarrow> p_velocity_kmh p | Some x \<Rightarrow> x)\<rparr>"

definition patch_finite :: "position_patch \<Rightarrow> bool" where
  "patch_finite patch =
     (opt_finite (set_latitude patch) \<and> opt_finite (set_longitude patch)
      \<and> (case set_altitude_km patch of None \<Rightarrow> True | Some x \<Rightarrow> opt_finite x)
      \<and> (case set_velocity_kmh patch of None \<Rightarrow> True | Some x \<Rightarrow> opt_finite x))"

text \<open>
  What the server stores for the assignments: a new timestamp goes through the range
  check of the \<^verbatim>\<open>INT\<close> column.
\<close>

definition stored_patch :: "bool \<Rightarrow> position_patch \<Rightarrow> pyexn + position_patch" where
  "stored_patch strict patch =
     (case set_timestamp patch of
        None \<Rightarrow> Inr patch
      | Some t \<Rightarrow>
          (case store_int strict t of
             Inl e \<Rightarrow> Inl e
           | Inr stored_ts \<Rightarrow> Inr (patch\<lparr>set_timestamp := Some stored_ts\<rparr>)))"

text \<open>
  \<^verbatim>\<open>UPDATE positions SET ... WHERE id=%s\<close>; the result is \<^verbatim>\<open>rowcount\<close>, as above.  The
  driver refuses \<^verbatim>\<open>inf\<close> and \<^verbatim>\<open>nan\<close> before the statement is sent; the server checks
  a value when it stores it into a row, so a statement that matches no row stores
  nothing and raises nothing.
\<close>

definition update_positions_where_id ::
  "int \<Rightarrow> position_patch \<Rightarrow> db \<Rightarrow> (pyexn + nat) \<times> db" where
  "update_positions_where_id pid patch d =
     (if \<not> patch_finite patch then (Inl ProgrammingError, d)
      else if pid \<notin> set (map p_id (positions d)) then (Inr 0, d)
      else (case stored_patch (sql_strict d) patch of
              Inl e \<Rightarrow> (Inl e, d)
            | Inr stored \<Rightarrow>
                (Inr (length (filter (\<lambda>p. p_id p = pid \<and> apply_position_patch stored p \<noteq> p)
                                     (positions d))),
                 d\<lparr>positions :=
                      map (\<lambda>p. if p_id p = pid then apply_position_patch stored p else p)
                          (positions d)\<rparr>)))"

definition update_position_row :: "to_float \<Rightarrow> int \<Rightarrow> pydict \<Rightarrow> db \<Rightarrow> response \<times> db" where
  "update_position_row conv pid data d =
     (case position_fields conv data of
        Inl early \<Rightarrow> (early, d)
      | Inr patch \<Rightarrow>
          (case update_positions_where_id pid patch d of
             (Inl e, d1) \<Rightarrow> (Unhandled e, d1)
           | (Inr rowcount, d1) \<Rightarrow>
               if rowcount = 0 then (Response (error_json ''position not found'') 404, d1)
               else (Response (PDict [(''updated'', PBool True)]) 200, d1)))"

section \<open>Sample states\<close>

text \<open>A store after the seeding of the tracked object, without and with samples.\<close>

definition sample_db :: db where
  "sample_db =
     \<lparr>satellites = [\<lparr>s_id = 1, s_norad_id = 25544, s_name = ''ISS'', s_created_at = 100\<rparr>],
      positions =
        [\<lparr>p_id = 1, p_satellite_id = 1, p_timestamp = 20, p_latitude = Finite 1,
          p_longitude = Finite 2, p_altitude_km = None, p_velocity_kmh = Some (Finite 3),
          p_created_at = 100\<rparr>,
         \<lparr>p_id = 2, p_satellite_id = 1, p_timestamp = 30, p_latitude = Finite 4,
          p_longitude = Finite 5, p_altitude_km = Some (Finite 6), p_velocity_kmh = None,
          p_created_at = 110\<rparr>,
         \<lparr>p_id = 3, p_satellite_id = 1, p_timestamp = 10, p_latitude = Finite 7,
          p_longitude = Finite 8, p_altitude_km = None, p_velocity_kmh = None,
          p_created_at = 120\<rparr>],
      satellites_auto_increment = 2, positions_auto_increment = 4, current_timestamp = 200,
      sql_strict = True\<rparr>"

definition seeded_db :: db where
  "seeded_db =
     \<lparr>satellites = [\<lparr>s_id = 1, s_norad_id = 25544, s_name = ''ISS'', s_created_at = 100\<rparr>],
      positions = [],
      satellites_auto_increment = 2, positions_auto_increment = 1, current_timestamp = 200,
      sql_strict = True\<rparr>"

definition fresh_db :: db where
  "fresh_db =
     \<lparr>satellites = [], positions = [],
      satellites_auto_increment = 1, positions_auto_increment = 1, current_timestamp = 100,
      sql_strict = True\<rparr>"

text \<open>
  A store with two satellites: the tracked object with two samples, and another
  satellite whose two samples are newer.
\<close>

definition shared_db :: db where
  "shared_db =
     \<lparr>satellites = [\<lparr>s_id = 1, s_norad_id = 25544, s_name = ''ISS'', s_created_at = 100\<rparr>,
                    \<lparr>s_id = 2, s_norad_id = 20580, s_name = ''HST'', s_created_at = 100\<rparr>],
      positions =
        [\<lparr>p_id = 1, p_satellite_id = 1, p_timestamp = 20, p_latitude = Finite 1,
          p_longitude = Finite 2, p_altitude_km = None, p_velocity_kmh = Some (Finite 3),
          p_created_at = 100\<rparr>,
         \<lparr>p_id = 2, p_satellite_id = 2, p_timestamp = 50, p_latitude = Finite 9,
          p_longitude = Finite 9, p_altitude_km = None, p_velocity_kmh = None,
          p_created_at = 105\<rparr>,
         \<lparr>p_id = 3, p_satellite_id = 1, p_timestamp = 30, p_latitude = Finite 4,
          p_longitude = Finite 5, p_altitude_km = Some (Finite 6), p_velocity_kmh = None,
          p_created_at = 110\<rparr>,
         \<lparr>p_id = 4, p_satellite_id = 2, p_timestamp = 60, p_latitude = Finite 9,
          p_longitude = Finite 9, p_altitude_km = None, p_velocity_kmh = None,
          p_created_at = 115\<rparr>],
      satellites_auto_increment = 3, positions_auto_increment = 5, current_timestamp = 200,
      sql_strict = True\<rparr>"

text \<open>A store in which only the other satellite has samples.\<close>

definition other_only_db :: db where
  "other_only_db =
     \<lparr>satellites = [\<lparr>s_id = 1, s_norad_id = 25544, s_name = ''ISS'', s_created_at = 100\<rparr>,
                    \<lparr>s_id = 2, s_norad_id = 20580, s_name = ''HST'', s_created_at = 100\<rparr>],
      positions =
        [\<lparr>p_id = 1, p_satellite_id = 2, p_timestamp = 50, p_latitude = Finite 9,
          p_longitude = Finite 9, p_altitude_km = None, p_velocity_kmh = None,
          p_created_at = 105\<rparr>],
      satellites_auto_increment = 3, positions_auto_increment = 2, current_timestamp = 200,
      sql_strict = True\<rparr>"

text \<open>A store with a thousand samples of satellite 1, one per second.\<close>

definition crowded_db :: db where
  "crowded_db =
     \<lparr>satellites = [\<lparr>s_id = 1, s_norad_id = 25544, s_name = ''ISS'', s_created_at = 100\<rparr>],
      positions =
        map (\<lambda>i. \<lparr>p_id = int i, p_satellite_id = 1, p_timestamp = 1700000000 + int i,
                   p_latitude = Finite 0, p_longitude = Finite 0, p_altitude_km = None,
                   p_velocity_kmh = None, p_created_at = 100\<rparr>) [1..<1001],
      satellites_auto_increment = 2, positions_auto_increment = 1001,
      current_timestamp = 200, sql_strict = True\<rparr>"

section \<open>The ingestion fallback\<close>

lemma set_positions_of_norad:
  "set (positions_of_norad d n) =
     {p \<in> set (positions d). \<exists>s \<in> set (satellites d). s_id s = p_satellite_id p \<and> s_norad_id s = n}"
  by (auto simp: positions_of_norad_def)

lemma latest_position_None:
  "positions_of_norad d n = [] \<Longrightarrow> latest_position d n = None"
  by (simp add: latest_position_def order_by_timestamp_desc_def)

lemma sort_key_head_least:
  assumes "sort_key f xs = y # ys"
  shows "y \<in> set xs \<and> (\<forall>x \<in> set xs. f y \<le> f x)"
proof -
  have srt: "sorted (map f (y # ys))"
    using assms sorted_sort_key [of f xs] by simp
  have st: "set (y # ys) = set xs"
    using assms set_sort [of f xs] by simp
  from srt have "\<forall>x \<in> set (y # ys). f y \<le> f x" by auto
  with st show ?thesis by auto
qed

lemma latest_position_Some:
  assumes "positions_of_norad d n \<noteq> []"
  shows "\<exists>row \<in> set (positions_of_norad d n).
           latest_position d n = Some row \<and>
           (\<forall>q \<in> set (positions_of_norad d n). p_timestamp q \<le> p_timestamp row)"
proof -
  let ?xs = "positions_of_norad d n"
  let ?s = "sort_key (\<lambda>p. - p_timestamp p) ?xs"
  have "?s \<noteq> []" using assms by (metis length_sort length_0_conv)
  then obtain y ys where s: "?s = y # ys" by (cases ?s) auto
  from sort_key_head_least [OF s]
  have "y \<in> set ?xs" and "\<forall>q \<in> set ?xs. p_timestamp q \<le> p_timestamp y" by auto
  moreover have "latest_position d n = Some y"
    using s by (simp add: latest_position_def order_by_timestamp_desc_def)
  ultimately show ?thesis by blast
qed

lemma api_iss_fetch_failed:
  "(positions_of_norad d tracked_norad \<noteq> [] \<longrightarrow>
      (\<exists>row \<in> set (positions_of_norad d tracked_norad).
         (\<forall>q \<in> set (positions_of_norad d tracked_norad). p_timestamp q \<le> p_timestamp row) \<and>
         api_iss conv FetchFailed others1 others2 d =
           (Response (PDict [(''source'', PStr ''cache''),
                             (''timestamp'', PInt (p_timestamp row)),
                             (''latitude'', PFloat (p_latitude row)),
                             (''longitude'', PFloat (p_longitude row)),
                             (''altitude_km'', opt_float (p_altitude_km row)),
                             (''velocity_kmh'', opt_float (p_velocity_kmh row))]) 200, d)))
   \<and> (positions_of_norad d tracked_norad = [] \<longrightarrow>
        api_iss conv FetchFailed others1 others2 d =
          (Response (PDict [(''error'', PStr ''Failed to fetch ISS position'')]) 502, d))"
proof (intro conjI impI)
  assume ne: "positions_of_norad d tracked_norad \<noteq> []"
  from latest_position_Some [OF ne] obtain row where
    "row \<in> set (positions_of_norad d tracked_norad)"
    "latest_position d tracked_norad = Some row"
    "\<forall>q \<in> set (positions_of_norad d tracked_norad). p_timestamp q \<le> p_timestamp row"
    by blast
  then show "\<exists>row \<in> set (positions_of_norad d tracked_norad).
         (\<forall>q \<in> set (positions_of_norad d tracked_norad). p_timestamp q \<le> p_timestamp row) \<and>
         api_iss conv FetchFailed others1 others2 d =
           (Response (PDict [(''source'', PStr ''cache''),
                             (''timestamp'', PInt (p_timestamp row)),
                             (''latitude'', PFloat (p_latitude row)),
                             (''longitude'', PFloat (p_longitude row)),
                             (''altitude_km'', opt_float (p_altitude_km row)),
                             (''velocity_kmh'', opt_float (p_velocity_kmh row))]) 200, d)"
    by (auto simp: api_iss_def cache_json_def reading_json_def)
next
  assume "positions_of_norad d tracked_norad = []"
  then show "api_iss conv FetchFailed others1 others2 d =
          (Response (PDict [(''error'', PStr ''Failed to fetch ISS position'')]) 502, d)"
    by (simp add: api_iss_def latest_position_None error_json_def)
qed

lemma positions_of_norad_shared:
  "positions_of_norad shared_db tracked_norad = [positions shared_db ! 0, positions shared_db ! 2]"
  by (simp add: positions_of_norad_def shared_db_def tracked_norad_def)

text \<open>
  Claim C1.  The fallback is taken only when an exception is raised inside the \<^verbatim>\<open>try\<close>
  block.  A response that decodes to an object without a \<^verbatim>\<open>timestamp\<close> is malformed
  too, but the conversions of the payload run outside the block: the request ends in an
  uncaught \<^verbatim>\<open>KeyError\<close>, although the tracked object has stored samples, the newest of
  which (timestamp 30) is what the fallback answers in the same store when the fetch
  raises.
\<close>

theorem api_iss_unusable_payload:
  "api_iss conv (FetchOk (Some ''iss'')
       [(''latitude'', PFloat (Finite 51.5)), (''longitude'', PFloat (Finite (- 0.25)))])
     (\<lambda>d. d) (\<lambda>d. d) shared_db = (Unhandled KeyError, shared_db)
   \<and> api_iss conv FetchFailed (\<lambda>d. d) (\<lambda>d. d) shared_db =
       (Response (PDict [(''source'', PStr ''cache''), (''timestamp'', PInt 30),
                         (''latitude'', PFloat (Finite 4)), (''longitude'', PFloat (Finite 5)),
                         (''altitude_km'', PFloat (Finite 6)), (''velocity_kmh'', PNone)]) 200,
        shared_db)"
proof
  have g: "get_satellite_id (\<lambda>d. d) (\<lambda>d. d) tracked_norad ''iss'' shared_db = (Inr 1, shared_db)"
    by (simp add: get_satellite_id_def select_id_by_norad_def shared_db_def tracked_norad_def)
  have p: "parse_reading conv
       [(''latitude'', PFloat (Finite 51.5)), (''longitude'', PFloat (Finite (- 0.25)))]
     = Inl KeyError"
    by (simp add: parse_reading_def dict_item_def)
  show "api_iss conv (FetchOk (Some ''iss'')
       [(''latitude'', PFloat (Finite 51.5)), (''longitude'', PFloat (Finite (- 0.25)))])
     (\<lambda>d. d) (\<lambda>d. d) shared_db = (Unhandled KeyError, shared_db)"
    using g p by (simp add: api_iss_def)
  have "latest_position shared_db tracked_norad = Some (positions shared_db ! 2)"
    unfolding latest_position_def positions_of_norad_shared order_by_timestamp_desc_def
    by (simp add: shared_db_def)
  then show "api_iss conv FetchFailed (\<lambda>d. d) (\<lambda>d. d) shared_db =
       (Response (PDict [(''source'', PStr ''cache''), (''timestamp'', PInt 30),
                         (''latitude'', PFloat (Finite 4)), (''longitude'', PFloat (Finite 5)),
                         (''altitude_km'', PFloat (Finite 6)), (''velocity_kmh'', PNone)]) 200,
        shared_db)"
    by (simp add: api_iss_def cache_json_def reading_json_def opt_float_def)
      (simp add: shared_db_def)
qed

section \<open>Validation of numeric inputs\<close>

text \<open>
  Claim C5.  A query parameter \<^verbatim>\<open>limit\<close> that is not an integer makes the history query
  end in an uncaught \<^verbatim>\<open>ValueError\<close>, and an external identifier that is a JSON array makes
  the creation of a satellite end in an uncaught \<^verbatim>\<open>TypeError\<close>: neither request is
  answered with status 400.
\<close>

theorem unvalidated_numeric_inputs:
  "api_history [(''limit'', ''abc'')] d = Unhandled ValueError
   \<and> create_satellite [(''name'', PStr ''Hubble''), (''norad_id'', PList [PInt 20580])] d
       = (Unhandled TypeError, d)"
  by (simp add: api_history_def args_get_default_def int_of_str_def signed_digitpart_def
      py_strip_def is_space_def digitpart_def is_digit_def create_satellite_def
      or_empty_strip_def dict_get_def dict_get_default_def)

section \<open>The history query\<close>

lemma sorted_rev_of_descending:
  fixes f :: "'a \<Rightarrow> int"
  shows "sorted (map (\<lambda>p. - f p) ys) \<Longrightarrow> sorted (map f (rev ys))"
  by (simp add: sorted_wrt_map sorted_wrt_rev)

lemma sorted_take_drop:
  fixes g :: "'a \<Rightarrow> int"
  assumes "sorted (map g s)"
  shows "sorted (map g (take k s))"
    and "\<forall>a \<in> set (take k s). \<forall>b \<in> set (drop k s). g a \<le> g b"
proof -
  have "sorted (map g (take k s) @ map g (drop k s))"
    using assms by (simp only: map_append [symmetric] append_take_drop_id)
  then have "sorted (map g (take k s)) \<and>
    (\<forall>x \<in> set (map g (take k s)). \<forall>y \<in> set (map g (drop k s)). x \<le> y)"
    unfolding sorted_append by blast
  then show "sorted (map g (take k s))"
    and "\<forall>a \<in> set (take k s). \<forall>b \<in> set (drop k s). g a \<le> g b"
    by simp_all
qed

lemma mset_take_drop:
  "mset s = mset (take k s) + mset (drop k s)"
proof -
  have "mset (take k s) + mset (drop k s) = mset (take k s @ drop k s)"
    by (rule mset_append [symmetric])
  also have "\<dots> = mset s"
    by (simp only: append_take_drop_id)
  finally show ?thesis by (rule sym)
qed

lemma newest_first_window:
  fixes xs :: "position list" and k :: nat
  defines "rs \<equiv> rev (take k (order_by_timestamp_desc xs))"
  shows "length rs = min k (length xs)"
    and "sorted (map p_timestamp rs)"
    and "mset rs \<subseteq># mset xs"
    and "\<forall>old \<in># mset xs - mset rs. \<forall>r \<in> set rs. p_timestamp old \<le> p_timestamp r"
proof -
  let ?f = "\<lambda>p. - p_timestamp p"
  let ?s = "sort_key ?f xs"
  have rs: "rs = rev (take k ?s)"
    by (simp add: rs_def order_by_timestamp_desc_def)
  have sorted_s: "sorted (map ?f ?s)" by (rule sorted_sort_key)
  have srt: "sorted (map ?f (take k ?s))"
    by (rule sorted_take_drop(1) [OF sorted_s])
  have cross: "\<forall>a \<in> set (take k ?s). \<forall>b \<in> set (drop k ?s). ?f a \<le> ?f b"
    by (rule sorted_take_drop(2) [OF sorted_s])
  show "length rs = min k (length xs)"
    unfolding rs by (simp add: min.commute)
  show "sorted (map p_timestamp rs)"
    unfolding rs using srt by (rule sorted_rev_of_descending)
  have ms: "mset xs = mset (take k ?s) + mset (drop k ?s)"
    using mset_take_drop [of ?s k] by (simp only: mset_sort)
  show "mset rs \<subseteq># mset xs"
    unfolding rs mset_rev by (subst ms) (rule mset_subset_eq_add_left)
  have diff: "mset xs - mset rs = mset (drop k ?s)"
    unfolding rs mset_rev by (subst ms) (rule add_diff_cancel_left')
  show "\<forall>old \<in># mset xs - mset rs. \<forall>r \<in> set rs. p_timestamp old \<le> p_timestamp r"
  proof (intro ballI)
    fix old r
    assume "old \<in># mset xs - mset rs" and "r \<in> set rs"
    then have "old \<in> set (drop k ?s)" and "r \<in> set (take k ?s)"
      unfolding diff by (simp_all only: set_mset_mset rs set_rev)
    with cross have "?f r \<le> ?f old" by blast
    then show "p_timestamp old \<le> p_timestamp r" by simp
  qed
qed

lemma api_history_most_recent:
  assumes "(map_of args ''limit'' = None \<and> N = 50)
           \<or> (\<exists>s. map_of args ''limit'' = Some s \<and> int_of_str s = Some N)"
    and "positions_of_norad d tracked_norad \<noteq> []"
  shows "\<exists>rows.
           api_history args d = Response (PList (map history_row rows)) 200
           \<and> length rows \<le> nat (max 1 (min N 1000))
           \<and> length rows = min (nat (max 1 (min N 1000)))
                               (length (positions_of_norad d tracked_norad))
           \<and> sorted (map p_timestamp rows)
           \<and> mset rows \<subseteq># mset (positions_of_norad d tracked_norad)
           \<and> (\<forall>old \<in># mset (positions_of_norad d tracked_norad) - mset rows.
                 \<forall>r \<in> set rows. p_timestamp old \<le> p_timestamp r)"
proof -
  let ?k = "nat (max 1 (min N 1000))"
  let ?xs = "positions_of_norad d tracked_norad"
  let ?newest = "take ?k (order_by_timestamp_desc ?xs)"
  let ?rows = "rev ?newest"
  from assms(1) have lim: "py_int (args_get_default args ''limit'' (PInt 50)) = Inr N"
    by (auto simp: args_get_default_def)
  have b: "length ?rows = min ?k (length ?xs)"
    by (rule newest_first_window)
  have "0 < ?k" by simp
  moreover from assms(2) have "0 < length ?xs" by simp
  ultimately have "0 < length ?rows" unfolding b by simp
  then have "length ?newest \<noteq> 0" by simp
  then obtain row rest where "?newest = row # rest"
    by (cases ?newest) simp_all
  with lim have a: "api_history args d = Response (PList (map history_row ?rows)) 200"
    by (simp add: api_history_def clamp_limit_def)
  from b have b': "length ?rows \<le> ?k"
    by (simp only: min.cobounded1)
  have c: "sorted (map p_timestamp ?rows)"
    by (rule newest_first_window)
  have e: "mset ?rows \<subseteq># mset ?xs"
    by (rule newest_first_window)
  have f: "\<forall>old \<in># mset ?xs - mset ?rows. \<forall>r \<in> set ?rows. p_timestamp old \<le> p_timestamp r"
    by (rule newest_first_window)
  show ?thesis
    apply (rule exI [of _ ?rows])
    apply (intro conjI)
         apply (rule a)
        apply (rule b')
       apply (rule b)
      apply (rule c)
     apply (rule e)
    apply (rule f)
    done
qed

lemma api_history_shared:
  "api_history [(''limit'', ''1'')] shared_db =
     Response (PList [PDict [(''timestamp'', PInt 30), (''latitude'', PFloat (Finite 4)),
                             (''longitude'', PFloat (Finite 5)),
                             (''altitude_km'', PFloat (Finite 6)),
                             (''velocity_kmh'', PNone)]]) 200"
proof -
  have "py_int (args_get_default [(''limit'', ''1'')] ''limit'' (PInt 50)) = Inr 1"
    by (simp add: args_get_default_def int_of_str_def signed_digitpart_def py_strip_def
        is_space_def digitpart_def is_digit_def digit_val_def)
  then show ?thesis
    unfolding api_history_def positions_of_norad_shared order_by_timestamp_desc_def
    by (simp add: clamp_limit_def history_row_def opt_float_def shared_db_def)
qed

text \<open>
  Claim C2.  The claim holds whenever the tracked object has a stored sample, but not for
  every stored set of samples: when the query selects no row, \<^verbatim>\<open>rows.reverse()\<close> is
  called on the empty tuple and the request ends in an uncaught \<^verbatim>\<open>AttributeError\<close>
  instead of answering with an empty list.  This is so in the store right after the
  seeding of the tracked object, and in a store where only another satellite has
  samples.
\<close>

theorem api_history_no_samples:
  "api_history [] seeded_db = Unhandled AttributeError
   \<and> api_history [(''limit'', ''10'')] other_only_db = Unhandled AttributeError"
proof
  show "api_history [] seeded_db = Unhandled AttributeError"
    by (simp add: api_history_def args_get_default_def positions_of_norad_def
        order_by_timestamp_desc_def seeded_db_def)
  have "py_int (args_get_default [(''limit'', ''10'')] ''limit'' (PInt 50)) = Inr 10"
    by (simp add: args_get_default_def int_of_str_def signed_digitpart_def py_strip_def
        is_space_def digitpart_def is_digit_def digit_val_def)
  moreover have "positions_of_norad other_only_db tracked_norad = []"
    by (simp add: positions_of_norad_def other_only_db_def tracked_norad_def)
  ultimately show "api_history [(''limit'', ''10'')] other_only_db = Unhandled AttributeError"
    by (simp add: api_history_def order_by_timestamp_desc_def)
qed

section \<open>The identity resolver\<close>

lemma select_id_by_norad_None:
  "(select_id_by_norad d n = None) = (n \<notin> set (map s_norad_id (satellites d)))"
proof (cases "filter (\<lambda>s. s_norad_id s = n) (satellites d)")
  case Nil
  then show ?thesis
    by (auto simp: select_id_by_norad_def filter_empty_conv)
next
  case (Cons s rest)
  then have "s \<in> set (filter (\<lambda>s. s_norad_id s = n) (satellites d))" by simp
  then have "n \<in> set (map s_norad_id (satellites d))" by auto
  with Cons show ?thesis by (simp add: select_id_by_norad_def)
qed

lemma select_id_by_norad_Some:
  assumes "select_id_by_norad d n = Some sid"
  shows "\<exists>s \<in> set (satellites d). s_norad_id s = n \<and> s_id s = sid"
proof (cases "filter (\<lambda>s. s_norad_id s = n) (satellites d)")
  case Nil
  with assms show ?thesis by (simp add: select_id_by_norad_def)
next
  case (Cons s rest)
  then have "s \<in> set (filter (\<lambda>s. s_norad_id s = n) (satellites d))" by simp
  moreover from Cons assms have "s_id s = sid" by (simp add: select_id_by_norad_def)
  ultimately show ?thesis by auto
qed

lemma select_id_by_norad_present:
  assumes "n \<in> set (map s_norad_id (satellites d))"
  shows "\<exists>s \<in> set (satellites d). s_norad_id s = n \<and> select_id_by_norad d n = Some (s_id s)"
proof -
  from assms have "select_id_by_norad d n \<noteq> None"
    by (simp only: select_id_by_norad_None) simp
  then obtain sid where "select_id_by_norad d n = Some sid" by blast
  with select_id_by_norad_Some [OF this] show ?thesis by auto
qed

text \<open>
  Claim C4.  (1) When a record with the external identifier exists, the resolver returns
  the key of such a record and changes nothing.  (2) When none exists, neither at the
  lookup nor at the insert, it appends a record with the identifier and the name, under
  the next key of the table, and returns that key.  (3) When none exists at the lookup
  but a concurrent request has inserted one before this request's insert, the insert
  fails, nothing is inserted by this request, and the key of the record found by the
  second lookup is returned, provided the record is still stored at that moment.
\<close>

theorem get_satellite_id_resolves:
  "(n \<in> set (map s_norad_id (satellites d)) \<longrightarrow>
      (\<exists>s \<in> set (satellites d). s_norad_id s = n \<and>
         get_satellite_id others1 others2 n nm d = (Inr (s_id s), d)))
   \<and> (n \<notin> set (map s_norad_id (satellites d)) \<and>
      n \<notin> set (map s_norad_id (satellites (others1 d))) \<longrightarrow>
      (\<exists>d'. get_satellite_id others1 others2 n nm d
               = (Inr (satellites_auto_increment (others1 d)), d')
           \<and> satellites d' = satellites (others1 d) @
                 [\<lparr>s_id = satellites_auto_increment (others1 d), s_norad_id = n, s_name = nm,
                   s_created_at = current_timestamp (others1 d)\<rparr>]
           \<and> positions d' = positions (others1 d)))
   \<and> (n \<notin> set (map s_norad_id (satellites d)) \<and>
      n \<in> set (map s_norad_id (satellites (others1 d))) \<and>
      n \<in> set (map s_norad_id (satellites (others2 (others1 d)))) \<longrightarrow>
      (\<exists>s \<in> set (satellites (others2 (others1 d))). s_norad_id s = n \<and>
         get_satellite_id others1 others2 n nm d = (Inr (s_id s), others2 (others1 d))))"
proof (intro conjI impI)
  assume "n \<in> set (map s_norad_id (satellites d))"
  from select_id_by_norad_present [OF this]
  show "\<exists>s \<in> set (satellites d). s_norad_id s = n \<and>
         get_satellite_id others1 others2 n nm d = (Inr (s_id s), d)"
    by (auto simp: get_satellite_id_def)
next
  assume a: "n \<notin> set (map s_norad_id (satellites d)) \<and>
      n \<notin> set (map s_norad_id (satellites (others1 d)))"
  then have "select_id_by_norad d n = None"
    by (simp only: select_id_by_norad_None) simp
  with a show "\<exists>d'. get_satellite_id others1 others2 n nm d
               = (Inr (satellites_auto_increment (others1 d)), d')
           \<and> satellites d' = satellites (others1 d) @
                 [\<lparr>s_id = satellites_auto_increment (others1 d), s_norad_id = n, s_name = nm,
                   s_created_at = current_timestamp (others1 d)\<rparr>]
           \<and> positions d' = positions (others1 d)"
    by (simp add: get_satellite_id_def insert_satellite_def)
next
  assume a: "n \<notin> set (map s_norad_id (satellites d)) \<and>
      n \<in> set (map s_norad_id (satellites (others1 d))) \<and>
      n \<in> set (map s_norad_id (satellites (others2 (others1 d))))"
  then have none: "select_id_by_norad d n = None"
    by (simp only: select_id_by_norad_None) simp
  from a have ins: "insert_satellite n nm (others1 d) = (Inl IntegrityError, others1 d)"
    by (simp add: insert_satellite_def)
  from a select_id_by_norad_present [of n "others2 (others1 d)"]
  obtain s where s: "s \<in> set (satellites (others2 (others1 d)))" "s_norad_id s = n"
    "select_id_by_norad (others2 (others1 d)) n = Some (s_id s)"
    by blast
  have "get_satellite_id others1 others2 n nm d = (Inr (s_id s), others2 (others1 d))"
    by (simp add: get_satellite_id_def none ins s(3))
  with s show "\<exists>s \<in> set (satellites (others2 (others1 d))). s_norad_id s = n \<and>
         get_satellite_id others1 others2 n nm d = (Inr (s_id s), others2 (others1 d))"
    by blast
qed

theorem get_satellite_id_resolves_witness:
  "tracked_norad \<in> set (map s_norad_id (satellites seeded_db))
   \<and> get_satellite_id (\<lambda>d. d) (\<lambda>d. d) tracked_norad ''ISS'' seeded_db = (Inr 1, seeded_db)
   \<and> tracked_norad \<notin> set (map s_norad_id (satellites fresh_db))
   \<and> fst (get_satellite_id (\<lambda>d. d) (\<lambda>d. d) tracked_norad ''ISS'' fresh_db) = Inr 1
   \<and> get_satellite_id (\<lambda>d. seeded_db) (\<lambda>d. d) tracked_norad ''ISS'' fresh_db
       = (Inr 1, seeded_db)"
proof -
  have a: "tracked_norad \<in> set (map s_norad_id (satellites seeded_db))"
    by (simp add: seeded_db_def tracked_norad_def)
  have b: "tracked_norad \<notin> set (map s_norad_id (satellites fresh_db))"
    by (simp add: fresh_db_def)
  have one: "\<And>s. s \<in> set (satellites seeded_db) \<Longrightarrow> s_id s = 1"
    by (simp add: seeded_db_def)
  have inc: "satellites_auto_increment fresh_db = 1"
    by (simp add: fresh_db_def)
  note t1 = get_satellite_id_resolves [of tracked_norad seeded_db "\<lambda>d. d" "\<lambda>d. d" "''ISS''",
      THEN conjunct1, rule_format, OF a]
  note t2 = get_satellite_id_resolves [of tracked_norad fresh_db "\<lambda>d. d" "\<lambda>d. d" "''ISS''",
      THEN conjunct2, THEN conjunct1, rule_format, OF conjI [OF b b]]
  note t3 = get_satellite_id_resolves [of tracked_norad fresh_db "\<lambda>d. seeded_db" "\<lambda>d. d" "''ISS''",
      THEN conjunct2, THEN conjunct2, rule_format, OF conjI [OF b conjI [OF a a]]]
  from t1 one have c1: "get_satellite_id (\<lambda>d. d) (\<lambda>d. d) tracked_norad ''ISS'' seeded_db
      = (Inr 1, seeded_db)"
    by auto
  from t2 inc have c2: "fst (get_satellite_id (\<lambda>d. d) (\<lambda>d. d) tracked_norad ''ISS'' fresh_db) = Inr 1"
    by auto
  from t3 one have c3: "get_satellite_id (\<lambda>d. seeded_db) (\<lambda>d. d) tracked_norad ''ISS'' fresh_db
       = (Inr 1, seeded_db)"
    by auto
  from a b c1 c2 c3 show ?thesis by simp
qed

section \<open>Creating a satellite twice\<close>

lemma count_of_distinct_key:
  "distinct (map f xs) \<Longrightarrow> k \<in> set (map f xs) \<Longrightarrow> length (filter (\<lambda>x. f x = k) xs) = 1"
proof (induction xs)
  case Nil
  then show ?case by simp
next
  case (Cons x xs)
  show ?case
  proof (cases "f x = k")
    case True
    with Cons.prems have "k \<notin> set (map f xs)" by auto
    then have "filter (\<lambda>x. f x = k) xs = []"
      by (auto simp: filter_empty_conv)
    with True show ?thesis by simp
  next
    case False
    with Cons show ?thesis by auto
  qed
qed

text \<open>
  Claim C6.  In a store that satisfies the uniqueness constraint and holds a satellite
  with external identifier \<open>n\<close>, a create request with a name that is not blank and an
  external identifier that converts to \<open>n\<close> is answered with the conflict response
  (status 409), the store afterwards is the store before, and it holds exactly one
  satellite with external identifier \<open>n\<close>.
\<close>

theorem create_satellite_duplicate:
  assumes "unique_norad d"
    and "n \<in> set (map s_norad_id (satellites d))"
    and "or_empty_strip (dict_get data ''name'') = Inr nm" and "nm \<noteq> []"
    and "py_int (dict_get data ''norad_id'') = Inr n"
  shows "fst (create_satellite data d) = Response (PDict [(''error'', PStr ''norad_id already exists'')]) 409
       \<and> snd (create_satellite data d) = d
       \<and> length (filter (\<lambda>s. s_norad_id s = n) (satellites (snd (create_satellite data d)))) = 1"
proof -
  from assms(5) have "dict_get data ''norad_id'' \<noteq> PNone" by auto
  with assms(2-5) have r: "create_satellite data d
      = (Response (PDict [(''error'', PStr ''norad_id already exists'')]) 409, d)"
    by (simp add: create_satellite_def insert_satellite_def error_json_def)
  from assms(1,2) have "length (filter (\<lambda>s. s_norad_id s = n) (satellites d)) = 1"
    unfolding unique_norad_def by (rule count_of_distinct_key)
  with r show ?thesis by simp
qed

theorem create_satellite_duplicate_witness:
  "unique_norad seeded_db
   \<and> fst (create_satellite [(''name'', PStr ''Zarya''), (''norad_id'', PStr ''25544'')] seeded_db)
       = Response (PDict [(''error'', PStr ''norad_id already exists'')]) 409
   \<and> snd (create_satellite [(''name'', PStr ''Zarya''), (''norad_id'', PStr ''25544'')] seeded_db)
       = seeded_db
   \<and> length (filter (\<lambda>s. s_norad_id s = 25544)
         (satellites (snd (create_satellite
            [(''name'', PStr ''Zarya''), (''norad_id'', PStr ''25544'')] seeded_db)))) = 1"
proof -
  let ?data = "[(''name'', PStr ''Zarya''), (''norad_id'', PStr ''25544'')]"
  have u: "unique_norad seeded_db"
    by (simp add: unique_norad_def seeded_db_def)
  have m: "(25544::int) \<in> set (map s_norad_id (satellites seeded_db))"
    by (simp add: seeded_db_def)
  have nm: "or_empty_strip (dict_get ?data ''name'') = Inr ''Zarya''"
    by (simp add: or_empty_strip_def dict_get_def dict_get_default_def py_strip_def is_space_def)
  have ne: "''Zarya'' \<noteq> []" by simp
  have no: "py_int (dict_get ?data ''norad_id'') = Inr 25544"
    by (simp add: dict_get_def dict_get_default_def int_of_str_def signed_digitpart_def
        py_strip_def is_space_def digitpart_def is_digit_def digit_val_def)
  from create_satellite_duplicate [OF u m nm ne no] u show ?thesis by blast
qed

section \<open>Deleting a satellite\<close>

lemma int_of_str_nonempty: "int_of_str s = Some n \<Longrightarrow> s \<noteq> []"
  by (auto simp: int_of_str_def signed_digitpart_def py_strip_def)

lemma distinct_key_unique:
  "distinct (map f xs) \<Longrightarrow> x \<in> set xs \<Longrightarrow> y \<in> set xs \<Longrightarrow> f x = f y \<Longrightarrow> x = y"
  by (meson distinct_map inj_onD)

text \<open>
  Claim C8.  Deleting by the key of a stored satellite is answered with status 200 and
  leaves a store without that satellite and without any position that refers to it, the
  other rows being kept; afterwards the positions query for that key (with a limit that
  is an integer or absent) returns the empty list, and so does the query by the external
  identifier of the deleted satellite when the store satisfied the uniqueness
  constraint.  Deleting by a key that no satellite has is answered with status 404 and
  leaves the store as it was.
\<close>

theorem delete_satellite_cascades:
  "(sid \<in> set (map s_id (satellites d)) \<longrightarrow>
      fst (delete_satellite sid d) = Response (PDict [(''deleted'', PBool True)]) 200
      \<and> satellites (snd (delete_satellite sid d)) = filter (\<lambda>s. s_id s \<noteq> sid) (satellites d)
      \<and> positions (snd (delete_satellite sid d))
          = filter (\<lambda>p. p_satellite_id p \<noteq> sid) (positions d)
      \<and> sid \<notin> set (map s_id (satellites (snd (delete_satellite sid d))))
      \<and> sid \<notin> set (map p_satellite_id (positions (snd (delete_satellite sid d))))
      \<and> (\<forall>args k limit.
            map_of args ''satellite_id'' = Some k \<and> int_of_str k = Some sid \<and>
            py_int (args_get_default args ''limit'' (PInt 50)) = Inr limit \<longrightarrow>
            list_positions args (snd (delete_satellite sid d)) = Response (PList []) 200)
      \<and> (\<forall>args k limit s.
            unique_norad d \<and> s \<in> set (satellites d) \<and> s_id s = sid \<and>
            map_of args ''satellite_id'' = None \<and>
            map_of args ''norad_id'' = Some k \<and> int_of_str k = Some (s_norad_id s) \<and>
            py_int (args_get_default args ''limit'' (PInt 50)) = Inr limit \<longrightarrow>
            list_positions args (snd (delete_satellite sid d)) = Response (PList []) 200))
   \<and> (sid \<notin> set (map s_id (satellites d)) \<longrightarrow>
        delete_satellite sid d
          = (Response (PDict [(''error'', PStr ''satellite not found'')]) 404, d))"
proof (intro conjI impI allI)
  assume "sid \<notin> set (map s_id (satellites d))"
  then have "filter (\<lambda>s. s_id s = sid) (satellites d) = []"
    by (auto simp: filter_empty_conv)
  with \<open>sid \<notin> set (map s_id (satellites d))\<close>
  show "delete_satellite sid d
          = (Response (PDict [(''error'', PStr ''satellite not found'')]) 404, d)"
    by (simp add: delete_satellite_def delete_satellites_where_id_def error_json_def)
next
  assume ex: "sid \<in> set (map s_id (satellites d))"
  let ?d' = "d\<lparr>satellites := filter (\<lambda>s. s_id s \<noteq> sid) (satellites d),
                positions := filter (\<lambda>p. p_satellite_id p \<noteq> sid) (positions d)\<rparr>"
  from ex have "filter (\<lambda>s. s_id s = sid) (satellites d) \<noteq> []"
    by (auto simp: filter_empty_conv)
  with ex have r: "delete_satellite sid d = (Response (PDict [(''deleted'', PBool True)]) 200, ?d')"
    by (simp add: delete_satellite_def delete_satellites_where_id_def)
  show "fst (delete_satellite sid d) = Response (PDict [(''deleted'', PBool True)]) 200"
    by (simp add: r)
  show "satellites (snd (delete_satellite sid d)) = filter (\<lambda>s. s_id s \<noteq> sid) (satellites d)"
    by (simp add: r)
  show "positions (snd (delete_satellite sid d))
          = filter (\<lambda>p. p_satellite_id p \<noteq> sid) (positions d)"
    by (simp add: r)
  show "sid \<notin> set (map s_id (satellites (snd (delete_satellite sid d))))"
    by (auto simp: r)
  show "sid \<notin> set (map p_satellite_id (positions (snd (delete_satellite sid d))))"
    by (auto simp: r)
  have nopos: "filter (\<lambda>p. p_satellite_id p = sid) (positions ?d') = []"
    by (auto simp: filter_empty_conv)
  {
    fix args k limit
    assume a: "map_of args ''satellite_id'' = Some k \<and> int_of_str k = Some sid \<and>
            py_int (args_get_default args ''limit'' (PInt 50)) = Inr limit"
    then have "k \<noteq> []" by (auto dest: int_of_str_nonempty)
    with a have sat: "args_get args ''satellite_id'' = PStr k" "truthy (PStr k)"
      "py_int (PStr k) = Inr sid"
      by (simp_all add: args_get_def args_get_default_def)
    from a sat have "list_positions args ?d'
        = select_positions (PStr k) (clamp_limit limit 1000) ?d'"
      by (simp add: list_positions_def)
    also have "\<dots> = Response (PList []) 200"
      unfolding select_positions_def using sat nopos
      by (simp add: order_by_timestamp_desc_def)
    finally show "list_positions args (snd (delete_satellite sid d)) = Response (PList []) 200"
      by (simp add: r)
  }
  {
    fix args k limit s
    assume a: "unique_norad d \<and> s \<in> set (satellites d) \<and> s_id s = sid \<and>
            map_of args ''satellite_id'' = None \<and>
            map_of args ''norad_id'' = Some k \<and> int_of_str k = Some (s_norad_id s) \<and>
            py_int (args_get_default args ''limit'' (PInt 50)) = Inr limit"
    then have "k \<noteq> []" by (auto dest: int_of_str_nonempty)
    with a have q: "args_get args ''satellite_id'' = PNone"
      "args_get args ''norad_id'' = PStr k" "truthy (PStr k)"
      "py_int (PStr k) = Inr (s_norad_id s)"
      by (simp_all add: args_get_def args_get_default_def)
    have "s_norad_id s \<notin> set (map s_norad_id (satellites ?d'))"
    proof
      assume "s_norad_id s \<in> set (map s_norad_id (satellites ?d'))"
      then obtain t where t: "t \<in> set (satellites d)" "s_id t \<noteq> sid"
        "s_norad_id t = s_norad_id s"
        by auto
      with a have "t = s"
        unfolding unique_norad_def by (metis distinct_key_unique)
      with t a show False by simp
    qed
    then have "select_id_by_norad ?d' (s_norad_id s) = None"
      by (simp only: select_id_by_norad_None) simp
    with a q have "list_positions args ?d' = Response (PList []) 200"
      by (simp add: list_positions_def)
    then show "list_positions args (snd (delete_satellite sid d)) = Response (PList []) 200"
      by (simp add: r)
  }
qed

theorem delete_satellite_cascades_witness:
  "1 \<in> set (map s_id (satellites sample_db))
   \<and> fst (delete_satellite 1 sample_db) = Response (PDict [(''deleted'', PBool True)]) 200
   \<and> satellites (snd (delete_satellite 1 sample_db)) = []
   \<and> positions (snd (delete_satellite 1 sample_db)) = []
   \<and> list_positions [(''satellite_id'', ''1'')] (snd (delete_satellite 1 sample_db))
       = Response (PList []) 200
   \<and> list_positions [(''norad_id'', ''25544'')] (snd (delete_satellite 1 sample_db))
       = Response (PList []) 200
   \<and> 7 \<notin> set (map s_id (satellites sample_db))
   \<and> delete_satellite 7 sample_db
       = (Response (PDict [(''error'', PStr ''satellite not found'')]) 404, sample_db)"
proof -
  have a: "1 \<in> set (map s_id (satellites sample_db))"
    by (simp add: sample_db_def)
  have b: "7 \<notin> set (map s_id (satellites sample_db))"
    by (simp add: sample_db_def)
  have p1: "int_of_str ''1'' = Some 1"
    by (simp add: int_of_str_def signed_digitpart_def py_strip_def is_space_def digitpart_def
        is_digit_def digit_val_def)
  have p2: "int_of_str ''25544'' = Some 25544"
    by (simp add: int_of_str_def signed_digitpart_def py_strip_def is_space_def digitpart_def
        is_digit_def digit_val_def)
  have u: "unique_norad sample_db"
    by (simp add: unique_norad_def sample_db_def)
  let ?s = "\<lparr>s_id = 1, s_norad_id = 25544, s_name = ''ISS'', s_created_at = 100\<rparr>"
  have s: "?s \<in> set (satellites sample_db)" "s_id ?s = 1" "s_norad_id ?s = 25544"
    by (simp_all add: sample_db_def)
  note t = delete_satellite_cascades [of 1 sample_db, THEN conjunct1, rule_format, OF a]
  note n = delete_satellite_cascades [of 7 sample_db, THEN conjunct2, rule_format, OF b]
  from t have c1: "fst (delete_satellite 1 sample_db)
      = Response (PDict [(''deleted'', PBool True)]) 200"
    by blast
  from t have "satellites (snd (delete_satellite 1 sample_db))
      = filter (\<lambda>s. s_id s \<noteq> 1) (satellites sample_db)"
    by blast
  then have c2: "satellites (snd (delete_satellite 1 sample_db)) = []"
    by (simp add: sample_db_def)
  from t have "positions (snd (delete_satellite 1 sample_db))
      = filter (\<lambda>p. p_satellite_id p \<noteq> 1) (positions sample_db)"
    by blast
  then have c3: "positions (snd (delete_satellite 1 sample_db)) = []"
    by (simp add: sample_db_def)
  from t have q: "\<And>args k limit.
            map_of args ''satellite_id'' = Some k \<and> int_of_str k = Some 1 \<and>
            py_int (args_get_default args ''limit'' (PInt 50)) = Inr limit \<Longrightarrow>
            list_positions args (snd (delete_satellite 1 sample_db)) = Response (PList []) 200"
    by blast
  have c4: "list_positions [(''satellite_id'', ''1'')] (snd (delete_satellite 1 sample_db))
       = Response (PList []) 200"
    by (rule q [of _ "''1''" 50]) (simp add: p1 args_get_default_def)
  from t have q2: "\<And>args k limit s.
            unique_norad sample_db \<and> s \<in> set (satellites sample_db) \<and> s_id s = 1 \<and>
            map_of args ''satellite_id'' = None \<and>
            map_of args ''norad_id'' = Some k \<and> int_of_str k = Some (s_norad_id s) \<and>
            py_int (args_get_default args ''limit'' (PInt 50)) = Inr limit \<Longrightarrow>
            list_positions args (snd (delete_satellite 1 sample_db)) = Response (PList []) 200"
    by blast
  have c5: "list_positions [(''norad_id'', ''25544'')] (snd (delete_satellite 1 sample_db))
       = Response (PList []) 200"
    by (rule q2 [of ?s _ "''25544''" 50]) (simp add: u s p2 args_get_default_def)
  from a b c1 c2 c3 c4 c5 n show ?thesis by simp
qed

section \<open>Partial updates\<close>

lemma and_then_Inr:
  "(and_then m f = Inr y) = (\<exists>x. m = Inr x \<and> f x = Inr y)"
  by (cases m) simp_all

lemma satellite_fields_Inr:
  assumes "satellite_fields data = Inr patch"
  shows "(set_name patch = None) = (\<not> has_key data ''name'')"
    and "(set_norad_id patch = None) = (\<not> has_key data ''norad_id'')"
proof -
  from assms obtain nm norad where
    nm: "(if has_key data ''name''
        then (case or_empty_strip (dict_get data ''name'') of
                Inl e \<Rightarrow> Inl (Unhandled e)
              | Inr nm \<Rightarrow> Inr (Some nm))
        else Inr None) = Inr nm"
    and norad: "(if has_key data ''norad_id''
        then (case py_int (dict_get data ''norad_id'') of
                Inl e \<Rightarrow>
                  if e = ValueError then Inl (Response (error_json ''norad_id must be integer'') 400)
                  else Inl (Unhandled e)
              | Inr n \<Rightarrow> Inr (Some n))
        else Inr None) = Inr norad"
    and p: "(if nm = None \<and> norad = None
             then Inl (Response (error_json ''no fields to update'') 400)
             else Inr \<lparr>set_name = nm, set_norad_id = norad\<rparr>) = Inr patch"
    unfolding satellite_fields_def and_then_Inr by blast
  from p have patch: "patch = \<lparr>set_name = nm, set_norad_id = norad\<rparr>"
    by (simp split: if_splits)
  from nm show "(set_name patch = None) = (\<not> has_key data ''name'')"
    unfolding patch by (auto split: if_splits sum.splits)
  from norad show "(set_norad_id patch = None) = (\<not> has_key data ''norad_id'')"
    unfolding patch by (auto split: if_splits sum.splits)
qed

lemma satellite_fields_no_keys:
  "\<not> has_key data ''name'' \<Longrightarrow> \<not> has_key data ''norad_id'' \<Longrightarrow>
     satellite_fields data = Inl (Response (error_json ''no fields to update'') 400)"
  by (simp add: satellite_fields_def)

lemma list_all2_map_same:
  "(\<And>x. x \<in> set xs \<Longrightarrow> P x (g x)) \<Longrightarrow> list_all2 P xs (map g xs)"
  by (simp add: list_all2_map2 list_all2_same)

lemma update_satellite_cases:
  "(\<exists>early. satellite_fields data = Inl early \<and> update_satellite sid data d = (early, d))
   \<or> (\<exists>patch r. satellite_fields data = Inr patch \<and> snd (update_satellite sid data d) = d)
   \<or> (\<exists>patch r. satellite_fields data = Inr patch \<and>
         snd (update_satellite sid data d) =
           d\<lparr>satellites := map (\<lambda>s. if s_id s = sid then apply_satellite_patch patch s else s)
                               (satellites d)\<rparr>)"
  by (cases "satellite_fields data")
    (auto simp: update_satellite_def update_satellites_where_id_def)

lemma update_satellite_frame:
  "list_all2 (\<lambda>s s'. s_id s' = s_id s \<and> s_created_at s' = s_created_at s
                \<and> (s_id s \<noteq> sid \<longrightarrow> s' = s)
                \<and> (\<not> has_key data ''name'' \<longrightarrow> s_name s' = s_name s)
                \<and> (\<not> has_key data ''norad_id'' \<longrightarrow> s_norad_id s' = s_norad_id s))
     (satellites d) (satellites (snd (update_satellite sid data d)))
   \<and> positions (snd (update_satellite sid data d)) = positions d"
  (is "list_all2 ?P _ _ \<and> _")
proof -
  have same: "list_all2 ?P (satellites d) (satellites d)"
    by (simp add: list_all2_same)
  from update_satellite_cases [of data sid d] consider
      (early) "snd (update_satellite sid data d) = d"
    | (updated) patch where "satellite_fields data = Inr patch"
        "snd (update_satellite sid data d) =
           d\<lparr>satellites := map (\<lambda>s. if s_id s = sid then apply_satellite_patch patch s else s)
                               (satellites d)\<rparr>"
    by fastforce
  then show ?thesis
  proof cases
    case early
    with same show ?thesis by simp
  next
    case updated
    have "list_all2 ?P (satellites d)
            (map (\<lambda>s. if s_id s = sid then apply_satellite_patch patch s else s) (satellites d))"
      by (rule list_all2_map_same)
        (use satellite_fields_Inr [OF updated(1)] in \<open>auto simp: apply_satellite_patch_def\<close>)
    with updated(2) show ?thesis by simp
  qed
qed

lemma map_only_matching:
  "k \<notin> set (map f xs) \<Longrightarrow> map (\<lambda>x. if f x = k then g x else x) xs = xs"
  by (induction xs) auto

lemma update_satellite_absent:
  assumes "sid \<notin> set (map s_id (satellites d))" and "satellite_fields data = Inr patch"
  shows "update_satellite sid data d
           = (Response (PDict [(''error'', PStr ''satellite not found'')]) 404, d)"
proof -
  from assms(1) have none: "\<And>P. filter (\<lambda>s. s_id s = sid \<and> P s) (satellites d) = []"
    by (auto simp: filter_empty_conv)
  from assms(1) have nobody: "\<And>P. \<not> (\<exists>s \<in> set (satellites d). s_id s = sid \<and> P s)"
    by auto
  have "update_satellites_where_id sid patch d = (Inr 0, d)"
    unfolding update_satellites_where_id_def
    by (simp add: none nobody map_only_matching [OF assms(1)])
  with assms(2) show ?thesis
    by (simp add: update_satellite_def error_json_def)
qed

lemma field_int_Inr:
  "field_int data k msg = Inr v \<Longrightarrow> (v = None) = (\<not> has_key data k)"
  by (auto simp: field_int_def split: if_splits sum.splits)

lemma field_float_Inr:
  "field_float conv data k msg = Inr v \<Longrightarrow> (v = None) = (\<not> has_key data k)"
  by (auto simp: field_float_def split: if_splits sum.splits)

lemma field_optional_float_Inr:
  "field_optional_float conv data k = Inr v \<Longrightarrow> (v = None) = (\<not> has_key data k)"
  by (auto simp: field_optional_float_def split: if_splits sum.splits)

lemma position_fields_Inr:
  assumes "position_fields conv data = Inr patch"
  shows "(set_timestamp patch = None) = (\<not> has_key data ''timestamp'')"
    and "(set_latitude patch = None) = (\<not> has_key data ''latitude'')"
    and "(set_longitude patch = None) = (\<not> has_key data ''longitude'')"
    and "(set_altitude_km patch = None) = (\<not> has_key data ''altitude_km'')"
    and "(set_velocity_kmh patch = None) = (\<not> has_key data ''velocity_kmh'')"
proof -
  from assms obtain ts lat lon alt vel where
    ts: "field_int data ''timestamp'' ''timestamp must be int'' = Inr ts"
    and lat: "field_float conv data ''latitude'' ''latitude must be number'' = Inr lat"
    and lon: "field_float conv data ''longitude'' ''longitude must be number'' = Inr lon"
    and alt: "field_optional_float conv data ''altitude_km'' = Inr alt"
    and vel: "field_optional_float conv data ''velocity_kmh'' = Inr vel"
    and p: "(if ts = None \<and> lat = None \<and> lon = None \<and> alt = None \<and> vel = None
             then Inl (Response (error_json ''no fields to update'') 400)
             else Inr \<lparr>set_timestamp = ts, set_latitude = lat, set_longitude = lon,
                       set_altitude_km = alt, set_velocity_kmh = vel\<rparr>) = Inr patch"
    unfolding position_fields_def and_then_Inr by blast
  from p have patch: "patch = \<lparr>set_timestamp = ts, set_latitude = lat, set_longitude = lon,
                       set_altitude_km = alt, set_velocity_kmh = vel\<rparr>"
    by (simp split: if_splits)
  show "(set_timestamp patch = None) = (\<not> has_key data ''timestamp'')"
    unfolding patch using field_int_Inr [OF ts] by simp
  show "(set_latitude patch = None) = (\<not> has_key data ''latitude'')"
    unfolding patch using field_float_Inr [OF lat] by simp
  show "(set_longitude patch = None) = (\<not> has_key data ''longitude'')"
    unfolding patch using field_float_Inr [OF lon] by simp
  show "(set_altitude_km patch = None) = (\<not> has_key data ''altitude_km'')"
    unfolding patch using field_optional_float_Inr [OF alt] by simp
  show "(set_velocity_kmh patch = None) = (\<not> has_key data ''velocity_kmh'')"
    unfolding patch using field_optional_float_Inr [OF vel] by simp
qed

lemma position_fields_no_keys:
  "\<not> has_key data ''timestamp'' \<Longrightarrow> \<not> has_key data ''latitude'' \<Longrightarrow>
   \<not> has_key data ''longitude'' \<Longrightarrow> \<not> has_key data ''altitude_km'' \<Longrightarrow>
   \<not> has_key data ''velocity_kmh'' \<Longrightarrow>
     position_fields conv data = Inl (Response (error_json ''no fields to update'') 400)"
  by (simp add: position_fields_def field_int_def field_float_def field_optional_float_def)

lemma stored_patch_Inr:
  assumes "stored_patch strict patch = Inr stored"
  shows "(set_timestamp stored = None) = (set_timestamp patch = None)"
    and "set_latitude stored = set_latitude patch"
    and "set_longitude stored = set_longitude patch"
    and "set_altitude_km stored = set_altitude_km patch"
    and "set_velocity_kmh stored = set_velocity_kmh patch"
  using assms by (auto simp: stored_patch_def split: option.splits sum.splits)

lemma update_position_row_cases:
  "snd (update_position_row conv pid data d) = d
   \<or> (\<exists>patch stored. position_fields conv data = Inr patch \<and>
         stored_patch (sql_strict d) patch = Inr stored \<and>
         snd (update_position_row conv pid data d) =
           d\<lparr>positions := map (\<lambda>p. if p_id p = pid then apply_position_patch stored p else p)
                              (positions d)\<rparr>)"
proof (cases "position_fields conv data")
  case (Inl early)
  then show ?thesis by (simp add: update_position_row_def)
next
  case (Inr patch)
  show ?thesis
  proof (cases "patch_finite patch \<and> pid \<in> set (map p_id (positions d))")
    case False
    with Inr show ?thesis
      by (auto simp: update_position_row_def update_positions_where_id_def)
  next
    case True
    show ?thesis
    proof (cases "stored_patch (sql_strict d) patch")
      case (Inl e)
      with Inr True show ?thesis
        by (simp add: update_position_row_def update_positions_where_id_def)
    next
      case stored: (Inr stored)
      with Inr True show ?thesis
        by (auto simp: update_position_row_def update_positions_where_id_def)
    qed
  qed
qed

lemma update_position_row_frame:
  "list_all2 (\<lambda>p p'. p_id p' = p_id p \<and> p_satellite_id p' = p_satellite_id p
                \<and> p_created_at p' = p_created_at p
                \<and> (p_id p \<noteq> pid \<longrightarrow> p' = p)
                \<and> (\<not> has_key data ''timestamp'' \<longrightarrow> p_timestamp p' = p_timestamp p)
                \<and> (\<not> has_key data ''latitude'' \<longrightarrow> p_latitude p' = p_latitude p)
                \<and> (\<not> has_key data ''longitude'' \<longrightarrow> p_longitude p' = p_longitude p)
                \<and> (\<not> has_key data ''altitude_km'' \<longrightarrow> p_altitude_km p' = p_altitude_km p)
                \<and> (\<not> has_key data ''velocity_kmh'' \<longrightarrow> p_velocity_kmh p' = p_velocity_kmh p))
     (positions d) (positions (snd (update_position_row conv pid data d)))
   \<and> satellites (snd (update_position_row conv pid data d)) = satellites d"
  (is "list_all2 ?P _ _ \<and> _")
proof -
  have same: "list_all2 ?P (positions d) (positions d)"
    by (simp add: list_all2_same)
  from update_position_row_cases [of conv pid data d] consider
      (early) "snd (update_position_row conv pid data d) = d"
    | (updated) patch stored where "position_fields conv data = Inr patch"
        "stored_patch (sql_strict d) patch = Inr stored"
        "snd (update_position_row conv pid data d) =
           d\<lparr>positions := map (\<lambda>p. if p_id p = pid then apply_position_patch stored p else p)
                              (positions d)\<rparr>"
    by fastforce
  then show ?thesis
  proof cases
    case early
    with same show ?thesis by simp
  next
    case updated
    have "list_all2 ?P (positions d)
            (map (\<lambda>p. if p_id p = pid then apply_position_patch stored p else p) (positions d))"
      by (rule list_all2_map_same)
        (use position_fields_Inr [OF updated(1)] stored_patch_Inr [OF updated(2)]
          in \<open>auto simp: apply_position_patch_def\<close>)
    with updated(3) show ?thesis by simp
  qed
qed

lemma update_position_row_absent:
  assumes "pid \<notin> set (map p_id (positions d))" and "position_fields conv data = Inr patch"
    and "patch_finite patch"
  shows "update_position_row conv pid data d
           = (Response (PDict [(''error'', PStr ''position not found'')]) 404, d)"
proof -
  have "update_positions_where_id pid patch d = (Inr 0, d)"
    unfolding update_positions_where_id_def using assms(1,3) by simp
  with assms(2) show ?thesis
    by (simp add: update_position_row_def error_json_def)
qed

lemma list_all2_column:
  "list_all2 P xs ys \<Longrightarrow> (\<And>x y. P x y \<Longrightarrow> f y = f x) \<Longrightarrow> map f ys = map f xs"
  by (induction rule: list_all2_induct) auto

text \<open>
  Claim C7.  Whatever the outcome of a partial update, the rows of the table correspond
  one to one to the rows before: key, owner and creation time of every row are kept, a row
  with another key is kept whole, and a column whose field is absent from the request body
  keeps its value; the other table is untouched.  A body without any recognised field is
  answered with status 400 and changes nothing.  A request whose fields pass validation
  (and, for positions, hold finite numbers) and whose key no row has is answered with
  status 404 and changes nothing.  This holds for \<^verbatim>\<open>update_satellite\<close> and for
  \<^verbatim>\<open>update_position_row\<close>.
\<close>

theorem partial_update_frame:
  "list_all2 (\<lambda>s s'. s_id s' = s_id s \<and> s_created_at s' = s_created_at s
                \<and> (s_id s \<noteq> sid \<longrightarrow> s' = s)
                \<and> (\<not> has_key sdata ''name'' \<longrightarrow> s_name s' = s_name s)
                \<and> (\<not> has_key sdata ''norad_id'' \<longrightarrow> s_norad_id s' = s_norad_id s))
     (satellites d) (satellites (snd (update_satellite sid sdata d)))
   \<and> positions (snd (update_satellite sid sdata d)) = positions d
   \<and> (\<not> has_key sdata ''name'' \<and> \<not> has_key sdata ''norad_id'' \<longrightarrow>
        update_satellite sid sdata d
          = (Response (PDict [(''error'', PStr ''no fields to update'')]) 400, d))
   \<and> (sid \<notin> set (map s_id (satellites d)) \<and> (\<exists>patch. satellite_fields sdata = Inr patch) \<longrightarrow>
        update_satellite sid sdata d
          = (Response (PDict [(''error'', PStr ''satellite not found'')]) 404, d))
   \<and> list_all2 (\<lambda>p p'. p_id p' = p_id p \<and> p_satellite_id p' = p_satellite_id p
                \<and> p_created_at p' = p_created_at p
                \<and> (p_id p \<noteq> pid \<longrightarrow> p' = p)
                \<and> (\<not> has_key pdata ''timestamp'' \<longrightarrow> p_timestamp p' = p_timestamp p)
                \<and> (\<not> has_key pdata ''latitude'' \<longrightarrow> p_latitude p' = p_latitude p)
                \<and> (\<not> has_key pdata ''longitude'' \<longrightarrow> p_longitude p' = p_longitude p)
                \<and> (\<not> has_key pdata ''altitude_km'' \<longrightarrow> p_altitude_km p' = p_altitude_km p)
                \<and> (\<not> has_key pdata ''velocity_kmh'' \<longrightarrow> p_velocity_kmh p' = p_velocity_kmh p))
     (positions d) (positions (snd (update_position_row conv pid pdata d)))
   \<and> satellites (snd (update_position_row conv pid pdata d)) = satellites d
   \<and> (\<not> has_key pdata ''timestamp'' \<and> \<not> has_key pdata ''latitude'' \<and>
      \<not> has_key pdata ''longitude'' \<and> \<not> has_key pdata ''altitude_km'' \<and>
      \<not> has_key pdata ''velocity_kmh'' \<longrightarrow>
        update_position_row conv pid pdata d
          = (Response (PDict [(''error'', PStr ''no fields to update'')]) 400, d))
   \<and> (pid \<notin> set (map p_id (positions d)) \<and>
      (\<exists>patch. position_fields conv pdata = Inr patch \<and> patch_finite patch) \<longrightarrow>
        update_position_row conv pid pdata d
          = (Response (PDict [(''error'', PStr ''position not found'')]) 404, d))"
proof (intro conjI impI)
  show "list_all2 (\<lambda>s s'. s_id s' = s_id s \<and> s_created_at s' = s_created_at s
                \<and> (s_id s \<noteq> sid \<longrightarrow> s' = s)
                \<and> (\<not> has_key sdata ''name'' \<longrightarrow> s_name s' = s_name s)
                \<and> (\<not> has_key sdata ''norad_id'' \<longrightarrow> s_norad_id s' = s_norad_id s))
     (satellites d) (satellites (snd (update_satellite sid sdata d)))"
    using update_satellite_frame [of sid sdata d] by (rule conjunct1)
  show "positions (snd (update_satellite sid sdata d)) = positions d"
    using update_satellite_frame [of sid sdata d] by (rule conjunct2)
  show "list_all2 (\<lambda>p p'. p_id p' = p_id p \<and> p_satellite_id p' = p_satellite_id p
                \<and> p_created_at p' = p_created_at p
                \<and> (p_id p \<noteq> pid \<longrightarrow> p' = p)
                \<and> (\<not> has_key pdata ''timestamp'' \<longrightarrow> p_timestamp p' = p_timestamp p)
                \<and> (\<not> has_key pdata ''latitude'' \<longrightarrow> p_latitude p' = p_latitude p)
                \<and> (\<not> has_key pdata ''longitude'' \<longrightarrow> p_longitude p' = p_longitude p)
                \<and> (\<not> has_key pdata ''altitude_km'' \<longrightarrow> p_altitude_km p' = p_altitude_km p)
                \<and> (\<not> has_key pdata ''velocity_kmh'' \<longrightarrow> p_velocity_kmh p' = p_velocity_kmh p))
     (positions d) (positions (snd (update_position_row conv pid pdata d)))"
    using update_position_row_frame [of pid pdata d conv] by (rule conjunct1)
  show "satellites (snd (update_position_row conv pid pdata d)) = satellites d"
    using update_position_row_frame [of pid pdata d conv] by (rule conjunct2)
next
  assume "\<not> has_key sdata ''name'' \<and> \<not> has_key sdata ''norad_id''"
  then show "update_satellite sid sdata d
          = (Response (PDict [(''error'', PStr ''no fields to update'')]) 400, d)"
    by (simp add: update_satellite_def satellite_fields_no_keys error_json_def)
next
  assume "sid \<notin> set (map s_id (satellites d)) \<and> (\<exists>patch. satellite_fields sdata = Inr patch)"
  then show "update_satellite sid sdata d
          = (Response (PDict [(''error'', PStr ''satellite not found'')]) 404, d)"
    using update_satellite_absent by blast
next
  assume "\<not> has_key pdata ''timestamp'' \<and> \<not> has_key pdata ''latitude'' \<and>
      \<not> has_key pdata ''longitude'' \<and> \<not> has_key pdata ''altitude_km'' \<and>
      \<not> has_key pdata ''velocity_kmh''"
  then show "update_position_row conv pid pdata d
          = (Response (PDict [(''error'', PStr ''no fields to update'')]) 400, d)"
    by (simp add: update_position_row_def position_fields_no_keys error_json_def)
next
  assume "pid \<notin> set (map p_id (positions d)) \<and>
      (\<exists>patch. position_fields conv pdata = Inr patch \<and> patch_finite patch)"
  then show "update_position_row conv pid pdata d
          = (Response (PDict [(''error'', PStr ''position not found'')]) 404, d)"
    using update_position_row_absent by blast
qed

theorem partial_update_frame_witness:
  "\<forall>conv.
   \<not> has_key [(''timestamp'', PStr ''7'')] ''latitude''
   \<and> map p_latitude (positions (snd (update_position_row conv 2 [(''timestamp'', PStr ''7'')] sample_db)))
       = map p_latitude (positions sample_db)
   \<and> map p_timestamp (positions (snd (update_position_row conv 2 [(''timestamp'', PStr ''7'')] sample_db)))
       = [20, 7, 10]
   \<and> update_position_row conv 2 [(''colour'', PStr ''red'')] sample_db
       = (Response (PDict [(''error'', PStr ''no fields to update'')]) 400, sample_db)
   \<and> 9 \<notin> set (map p_id (positions sample_db))
   \<and> update_position_row conv 9 [(''timestamp'', PStr ''7'')] sample_db
       = (Response (PDict [(''error'', PStr ''position not found'')]) 404, sample_db)
   \<and> \<not> has_key [(''name'', PStr ''Zarya'')] ''norad_id''
   \<and> map s_norad_id (satellites (snd (update_satellite 1 [(''name'', PStr ''Zarya'')] sample_db)))
       = map s_norad_id (satellites sample_db)
   \<and> map s_name (satellites (snd (update_satellite 1 [(''name'', PStr ''Zarya'')] sample_db)))
       = [''Zarya'']
   \<and> update_satellite 1 [] sample_db
       = (Response (PDict [(''error'', PStr ''no fields to update'')]) 400, sample_db)
   \<and> 9 \<notin> set (map s_id (satellites sample_db))
   \<and> update_satellite 9 [(''name'', PStr ''Zarya'')] sample_db
       = (Response (PDict [(''error'', PStr ''satellite not found'')]) 404, sample_db)"
proof
  fix conv :: to_float
  let ?pd = "[(''timestamp'', PStr ''7'')]"
  let ?sd = "[(''name'', PStr ''Zarya'')]"
  have seven: "int_of_str ''7'' = Some 7"
    by (simp add: int_of_str_def signed_digitpart_def py_strip_def is_space_def digitpart_def
        is_digit_def digit_val_def)
  have pf: "position_fields conv ?pd = Inr \<lparr>set_timestamp = Some 7, set_latitude = None,
      set_longitude = None, set_altitude_km = None, set_velocity_kmh = None\<rparr>"
    by (simp add: position_fields_def field_int_def field_float_def field_optional_float_def
        has_key_def dict_get_def dict_get_default_def seven)
  have sf: "satellite_fields ?sd = Inr \<lparr>set_name = Some ''Zarya'', set_norad_id = None\<rparr>"
    by (simp add: satellite_fields_def has_key_def dict_get_def dict_get_default_def
        or_empty_strip_def py_strip_def is_space_def)
  have k1: "\<not> has_key ?pd ''latitude''" by (simp add: has_key_def)
  have k2: "\<not> has_key ?sd ''norad_id''" by (simp add: has_key_def)
  have k3: "\<not> has_key [(''colour'', PStr ''red'')] ''timestamp'' \<and>
      \<not> has_key [(''colour'', PStr ''red'')] ''latitude'' \<and>
      \<not> has_key [(''colour'', PStr ''red'')] ''longitude'' \<and>
      \<not> has_key [(''colour'', PStr ''red'')] ''altitude_km'' \<and>
      \<not> has_key [(''colour'', PStr ''red'')] ''velocity_kmh''"
    by (simp add: has_key_def)
  have k4: "\<not> has_key [] ''name'' \<and> \<not> has_key [] ''norad_id''"
    by (simp add: has_key_def)
  have a1: "9 \<notin> set (map p_id (positions sample_db))" by (simp add: sample_db_def)
  have a2: "9 \<notin> set (map s_id (satellites sample_db))" by (simp add: sample_db_def)
  have fin: "patch_finite \<lparr>set_timestamp = Some 7, set_latitude = None,
      set_longitude = None, set_altitude_km = None, set_velocity_kmh = None\<rparr>"
    by (simp add: patch_finite_def)
  note t1 = partial_update_frame [of 1 ?sd sample_db 2 ?pd conv]
  from t1 have "list_all2 (\<lambda>p p'. p_id p' = p_id p \<and> p_satellite_id p' = p_satellite_id p
                \<and> p_created_at p' = p_created_at p
                \<and> (p_id p \<noteq> 2 \<longrightarrow> p' = p)
                \<and> (\<not> has_key ?pd ''timestamp'' \<longrightarrow> p_timestamp p' = p_timestamp p)
                \<and> (\<not> has_key ?pd ''latitude'' \<longrightarrow> p_latitude p' = p_latitude p)
                \<and> (\<not> has_key ?pd ''longitude'' \<longrightarrow> p_longitude p' = p_longitude p)
                \<and> (\<not> has_key ?pd ''altitude_km'' \<longrightarrow> p_altitude_km p' = p_altitude_km p)
                \<and> (\<not> has_key ?pd ''velocity_kmh'' \<longrightarrow> p_velocity_kmh p' = p_velocity_kmh p))
     (positions sample_db) (positions (snd (update_position_row conv 2 ?pd sample_db)))"
    by blast
  then have c1: "map p_latitude (positions (snd (update_position_row conv 2 ?pd sample_db)))
       = map p_latitude (positions sample_db)"
    by (rule list_all2_column) (use k1 in blast)
  from t1 have "list_all2 (\<lambda>s s'. s_id s' = s_id s \<and> s_created_at s' = s_created_at s
                \<and> (s_id s \<noteq> 1 \<longrightarrow> s' = s)
                \<and> (\<not> has_key ?sd ''name'' \<longrightarrow> s_name s' = s_name s)
                \<and> (\<not> has_key ?sd ''norad_id'' \<longrightarrow> s_norad_id s' = s_norad_id s))
     (satellites sample_db) (satellites (snd (update_satellite 1 ?sd sample_db)))"
    by blast
  then have c2: "map s_norad_id (satellites (snd (update_satellite 1 ?sd sample_db)))
       = map s_norad_id (satellites sample_db)"
    by (rule list_all2_column) (use k2 in blast)
  have c3: "map p_timestamp (positions (snd (update_position_row conv 2 ?pd sample_db))) = [20, 7, 10]"
    by (simp add: update_position_row_def pf update_positions_where_id_def patch_finite_def
        stored_patch_def store_int_def fits_int_def apply_position_patch_def sample_db_def)
  have c4: "map s_name (satellites (snd (update_satellite 1 ?sd sample_db))) = [''Zarya'']"
    by (simp add: update_satellite_def sf update_satellites_where_id_def
        apply_satellite_patch_def sample_db_def)
  from partial_update_frame [of 1 "[]" sample_db 2 "[(''colour'', PStr ''red'')]" conv] k3 k4
  have c5: "update_position_row conv 2 [(''colour'', PStr ''red'')] sample_db
       = (Response (PDict [(''error'', PStr ''no fields to update'')]) 400, sample_db)"
    and c6: "update_satellite 1 [] sample_db
       = (Response (PDict [(''error'', PStr ''no fields to update'')]) 400, sample_db)"
    by blast+
  from partial_update_frame [of 9 ?sd sample_db 9 ?pd conv] a1 a2 pf sf fin
  have c7: "update_position_row conv 9 ?pd sample_db
       = (Response (PDict [(''error'', PStr ''position not found'')]) 404, sample_db)"
    and c8: "update_satellite 9 ?sd sample_db
       = (Response (PDict [(''error'', PStr ''satellite not found'')]) 404, sample_db)"
    by blast+
  from k1 k2 a1 a2 c1 c2 c3 c4 c5 c6 c7 c8
  show "\<not> has_key [(''timestamp'', PStr ''7'')] ''latitude''
   \<and> map p_latitude (positions (snd (update_position_row conv 2 [(''timestamp'', PStr ''7'')] sample_db)))
       = map p_latitude (positions sample_db)
   \<and> map p_timestamp (positions (snd (update_position_row conv 2 [(''timestamp'', PStr ''7'')] sample_db)))
       = [20, 7, 10]
   \<and> update_position_row conv 2 [(''colour'', PStr ''red'')] sample_db
       = (Response (PDict [(''error'', PStr ''no fields to update'')]) 400, sample_db)
   \<and> 9 \<notin> set (map p_id (positions sample_db))
   \<and> update_position_row conv 9 [(''timestamp'', PStr ''7'')] sample_db
       = (Response (PDict [(''error'', PStr ''position not found'')]) 404, sample_db)
   \<and> \<not> has_key [(''name'', PStr ''Zarya'')] ''norad_id''
   \<and> map s_norad_id (satellites (snd (update_satellite 1 [(''name'', PStr ''Zarya'')] sample_db)))
       = map s_norad_id (satellites sample_db)
   \<and> map s_name (satellites (snd (update_satellite 1 [(''name'', PStr ''Zarya'')] sample_db)))
       = [''Zarya'']
   \<and> update_satellite 1 [] sample_db
       = (Response (PDict [(''error'', PStr ''no fields to update'')]) 400, sample_db)
   \<and> 9 \<notin> set (map s_id (satellites sample_db))
   \<and> update_satellite 9 [(''name'', PStr ''Zarya'')] sample_db
       = (Response (PDict [(''error'', PStr ''satellite not found'')]) 404, sample_db)"
    by blast
qed

section \<open>Ingestion of a live reading\<close>





section \<open>Creating a position\<close>

lemma create_position_created:
  assumes "py_int (dict_get data ''satellite_id'') = Inr sid"
    and "position_timestamp now data = Inr ts" and "fits_int ts"
    and "py_float conv (dict_get data ''latitude'') = Inr lat" and "is_finite lat"
    and "py_float conv (dict_get data ''longitude'') = Inr lon" and "is_finite lon"
    and "optional_float conv (dict_get data ''altitude_km'') = Inr alt" and "opt_finite alt"
    and "optional_float conv (dict_get data ''velocity_kmh'') = Inr vel" and "opt_finite vel"
    and "sid \<in> set (map s_id (satellites d))"
  shows "create_position conv now data d =
           (Response (PDict [(''id'', PInt (positions_auto_increment d)),
                             (''satellite_id'', PInt sid), (''timestamp'', PInt ts),
                             (''latitude'', PFloat lat), (''longitude'', PFloat lon),
                             (''altitude_km'', opt_float alt),
                             (''velocity_kmh'', opt_float vel)]) 201,
            d\<lparr>positions := positions d @
                   [\<lparr>p_id = positions_auto_increment d, p_satellite_id = sid,
                     p_timestamp = ts, p_latitude = lat, p_longitude = lon,
                     p_altitude_km = alt, p_velocity_kmh = vel,
                     p_created_at = current_timestamp d\<rparr>],
                positions_auto_increment := positions_auto_increment d + 1\<rparr>)"
proof -
  from assms(1) have "data \<noteq> []"
    by (auto simp: dict_get_def dict_get_default_def)
  moreover have "position_satellite_id data = Inr sid"
    using assms(1) by (simp add: position_satellite_id_def)
  moreover have "position_lat_lon conv data = Inr (lat, lon)"
    using assms(4,6) by (simp add: position_lat_lon_def)
  moreover have "insert_position sid ts lat lon alt vel d =
      (Inr (positions_auto_increment d),
       d\<lparr>positions := positions d @
              [\<lparr>p_id = positions_auto_increment d, p_satellite_id = sid,
                p_timestamp = ts, p_latitude = lat, p_longitude = lon,
                p_altitude_km = alt, p_velocity_kmh = vel,
                p_created_at = current_timestamp d\<rparr>],
           positions_auto_increment := positions_auto_increment d + 1\<rparr>)"
    using assms(3,5,7,9,11,12) unfolding insert_position_def by (simp add: store_int_def)
  ultimately show ?thesis
    using assms(2,8,10,12) by (simp add: create_position_def)
qed

text \<open>
  Claim C10, as amended.  When the \<^verbatim>\<open>timestamp\<close> field of a create request is absent or
  null, the empty string, the string \<^verbatim>\<open>0\<close>, or 0 (the integer, or the float 0.0 or
  \<^verbatim>\<open>false\<close>, which Python compares equal to it), and the rest of the request is valid (a
  satellite key that converts and is stored, latitude and longitude that convert to
  finite floats, altitude and velocity blank or finite) and the server's current time is
  within the range of the \<^verbatim>\<open>INT\<close> column, the sample is created with status 201 and both
  the returned and the stored timestamp are the server's current time.
\<close>

theorem create_position_default_timestamp:
  assumes "dict_get data ''timestamp'' = PNone \<or> dict_get data ''timestamp'' = PStr []
           \<or> dict_get data ''timestamp'' = PStr ''0'' \<or> dict_get data ''timestamp'' = PInt 0
           \<or> dict_get data ''timestamp'' = PFloat (Finite 0)
           \<or> dict_get data ''timestamp'' = PBool False"
    and "- 2147483648 \<le> now" and "now \<le> 2147483647"
    and "py_int (dict_get data ''satellite_id'') = Inr sid"
    and "sid \<in> set (map s_id (satellites d))"
    and "py_float conv (dict_get data ''latitude'') = Inr lat" and "is_finite lat"
    and "py_float conv (dict_get data ''longitude'') = Inr lon" and "is_finite lon"
    and "optional_float conv (dict_get data ''altitude_km'') = Inr alt" and "opt_finite alt"
    and "optional_float conv (dict_get data ''velocity_kmh'') = Inr vel" and "opt_finite vel"
  shows "create_position conv now data d =
           (Response (PDict [(''id'', PInt (positions_auto_increment d)),
                             (''satellite_id'', PInt sid), (''timestamp'', PInt now),
                             (''latitude'', PFloat lat), (''longitude'', PFloat lon),
                             (''altitude_km'', opt_float alt),
                             (''velocity_kmh'', opt_float vel)]) 201,
            d\<lparr>positions := positions d @
                   [\<lparr>p_id = positions_auto_increment d, p_satellite_id = sid,
                     p_timestamp = now, p_latitude = lat, p_longitude = lon,
                     p_altitude_km = alt, p_velocity_kmh = vel,
                     p_created_at = current_timestamp d\<rparr>],
                positions_auto_increment := positions_auto_increment d + 1\<rparr>)"
proof -
  from assms(1) have "in_none_empty_zero (dict_get data ''timestamp'')"
    unfolding in_none_empty_zero_def by blast
  then have ts: "position_timestamp now data = Inr now"
    by (simp add: position_timestamp_def)
  from assms(2,3) have fits: "fits_int now"
    by (simp add: fits_int_def)
  show ?thesis
    using assms(4) ts fits assms(6,7,8,9,10,11,12,13,5) by (rule create_position_created)
qed

theorem create_position_default_timestamp_witness:
  "\<forall>conv.
     create_position conv 1700000000
        [(''satellite_id'', PStr ''1''), (''timestamp'', PStr ''0''),
         (''latitude'', PFloat (Finite 51.5)), (''longitude'', PFloat (Finite (- 0.25)))] seeded_db =
       (Response (PDict [(''id'', PInt 1), (''satellite_id'', PInt 1),
                         (''timestamp'', PInt 1700000000),
                         (''latitude'', PFloat (Finite 51.5)),
                         (''longitude'', PFloat (Finite (- 0.25))),
                         (''altitude_km'', PNone), (''velocity_kmh'', PNone)]) 201,
        seeded_db\<lparr>positions :=
                    [\<lparr>p_id = 1, p_satellite_id = 1, p_timestamp = 1700000000,
                      p_latitude = Finite 51.5, p_longitude = Finite (- 0.25),
                      p_altitude_km = None, p_velocity_kmh = None, p_created_at = 200\<rparr>],
                  positions_auto_increment := 2\<rparr>)
   \<and> create_position conv 1700000000
        [(''satellite_id'', PInt 1), (''timestamp'', PBool False),
         (''latitude'', PFloat (Finite 51.5)), (''longitude'', PFloat (Finite (- 0.25))),
         (''altitude_km'', PInt 408)] seeded_db =
       (Response (PDict [(''id'', PInt 1), (''satellite_id'', PInt 1),
                         (''timestamp'', PInt 1700000000),
                         (''latitude'', PFloat (Finite 51.5)),
                         (''longitude'', PFloat (Finite (- 0.25))),
                         (''altitude_km'', PFloat (Finite 408)), (''velocity_kmh'', PNone)]) 201,
        seeded_db\<lparr>positions :=
                    [\<lparr>p_id = 1, p_satellite_id = 1, p_timestamp = 1700000000,
                      p_latitude = Finite 51.5, p_longitude = Finite (- 0.25),
                      p_altitude_km = Some (Finite 408), p_velocity_kmh = None,
                      p_created_at = 200\<rparr>],
                  positions_auto_increment := 2\<rparr>)"
proof
  fix conv :: to_float
  let ?data = "[(''satellite_id'', PStr ''1''), (''timestamp'', PStr ''0''),
         (''latitude'', PFloat (Finite 51.5)), (''longitude'', PFloat (Finite (- 0.25)))]"
  let ?data2 = "[(''satellite_id'', PInt 1), (''timestamp'', PBool False),
         (''latitude'', PFloat (Finite 51.5)), (''longitude'', PFloat (Finite (- 0.25))),
         (''altitude_km'', PInt 408)]"
  have t: "dict_get ?data ''timestamp'' = PNone \<or> dict_get ?data ''timestamp'' = PStr []
           \<or> dict_get ?data ''timestamp'' = PStr ''0'' \<or> dict_get ?data ''timestamp'' = PInt 0
           \<or> dict_get ?data ''timestamp'' = PFloat (Finite 0)
           \<or> dict_get ?data ''timestamp'' = PBool False"
    by (simp add: dict_get_def dict_get_default_def)
  have t2: "dict_get ?data2 ''timestamp'' = PNone \<or> dict_get ?data2 ''timestamp'' = PStr []
           \<or> dict_get ?data2 ''timestamp'' = PStr ''0'' \<or> dict_get ?data2 ''timestamp'' = PInt 0
           \<or> dict_get ?data2 ''timestamp'' = PFloat (Finite 0)
           \<or> dict_get ?data2 ''timestamp'' = PBool False"
    by (simp add: dict_get_def dict_get_default_def)
  have lo: "- 2147483648 \<le> (1700000000::int)" and hi: "(1700000000::int) \<le> 2147483647"
    by simp_all
  have s: "py_int (dict_get ?data ''satellite_id'') = Inr 1"
    by (simp add: dict_get_def dict_get_default_def int_of_str_def signed_digitpart_def
        py_strip_def is_space_def digitpart_def is_digit_def digit_val_def)
  have s2: "py_int (dict_get ?data2 ''satellite_id'') = Inr 1"
    by (simp add: dict_get_def dict_get_default_def)
  have m: "1 \<in> set (map s_id (satellites seeded_db))"
    by (simp add: seeded_db_def)
  have la: "py_float conv (dict_get ?data ''latitude'') = Inr (Finite 51.5)"
    by (simp add: dict_get_def dict_get_default_def)
  have lg: "py_float conv (dict_get ?data ''longitude'') = Inr (Finite (- 0.25))"
    by (simp add: dict_get_def dict_get_default_def)
  have al: "optional_float conv (dict_get ?data ''altitude_km'') = Inr None"
    by (simp add: optional_float_def in_none_empty_def dict_get_def dict_get_default_def)
  have ve: "optional_float conv (dict_get ?data ''velocity_kmh'') = Inr None"
    by (simp add: optional_float_def in_none_empty_def dict_get_def dict_get_default_def)
  have la2: "py_float conv (dict_get ?data2 ''latitude'') = Inr (Finite 51.5)"
    by (simp add: dict_get_def dict_get_default_def)
  have lg2: "py_float conv (dict_get ?data2 ''longitude'') = Inr (Finite (- 0.25))"
    by (simp add: dict_get_def dict_get_default_def)
  have al2: "optional_float conv (dict_get ?data2 ''altitude_km'') = Inr (Some (Finite 408))"
    by (simp add: optional_float_def in_none_empty_def dict_get_def dict_get_default_def)
  have ve2: "optional_float conv (dict_get ?data2 ''velocity_kmh'') = Inr None"
    by (simp add: optional_float_def in_none_empty_def dict_get_def dict_get_default_def)
  from create_position_default_timestamp [OF t lo hi s m la _ lg _ al _ ve]
  have a: "create_position conv 1700000000 ?data seeded_db =
       (Response (PDict [(''id'', PInt 1), (''satellite_id'', PInt 1),
                         (''timestamp'', PInt 1700000000),
                         (''latitude'', PFloat (Finite 51.5)),
                         (''longitude'', PFloat (Finite (- 0.25))),
                         (''altitude_km'', PNone), (''velocity_kmh'', PNone)]) 201,
        seeded_db\<lparr>positions :=
                    [\<lparr>p_id = 1, p_satellite_id = 1, p_timestamp = 1700000000,
                      p_latitude = Finite 51.5, p_longitude = Finite (- 0.25),
                      p_altitude_km = None, p_velocity_kmh = None, p_created_at = 200\<rparr>],
                  positions_auto_increment := 2\<rparr>)"
    by (simp add: opt_float_def seeded_db_def)
  from create_position_default_timestamp [OF t2 lo hi s2 m la2 _ lg2 _ al2 _ ve2]
  have b: "create_position conv 1700000000 ?data2 seeded_db =
       (Response (PDict [(''id'', PInt 1), (''satellite_id'', PInt 1),
                         (''timestamp'', PInt 1700000000),
                         (''latitude'', PFloat (Finite 51.5)),
                         (''longitude'', PFloat (Finite (- 0.25))),
                         (''altitude_km'', PFloat (Finite 408)), (''velocity_kmh'', PNone)]) 201,
        seeded_db\<lparr>positions :=
                    [\<lparr>p_id = 1, p_satellite_id = 1, p_timestamp = 1700000000,
                      p_latitude = Finite 51.5, p_longitude = Finite (- 0.25),
                      p_altitude_km = Some (Finite 408), p_velocity_kmh = None,
                      p_created_at = 200\<rparr>],
                  positions_auto_increment := 2\<rparr>)"
    by (simp add: opt_float_def seeded_db_def)
  from a b show "create_position conv 1700000000 ?data seeded_db =
       (Response (PDict [(''id'', PInt 1), (''satellite_id'', PInt 1),
                         (''timestamp'', PInt 1700000000),
                         (''latitude'', PFloat (Finite 51.5)),
                         (''longitude'', PFloat (Finite (- 0.25))),
                         (''altitude_km'', PNone), (''velocity_kmh'', PNone)]) 201,
        seeded_db\<lparr>positions :=
                    [\<lparr>p_id = 1, p_satellite_id = 1, p_timestamp = 1700000000,
                      p_latitude = Finite 51.5, p_longitude = Finite (- 0.25),
                      p_altitude_km = None, p_velocity_kmh = None, p_created_at = 200\<rparr>],
                  positions_auto_increment := 2\<rparr>)
   \<and> create_position conv 1700000000 ?data2 seeded_db =
       (Response (PDict [(''id'', PInt 1), (''satellite_id'', PInt 1),
                         (''timestamp'', PInt 1700000000),
                         (''latitude'', PFloat (Finite 51.5)),
                         (''longitude'', PFloat (Finite (- 0.25))),
                         (''altitude_km'', PFloat (Finite 408)), (''velocity_kmh'', PNone)]) 201,
        seeded_db\<lparr>positions :=
                    [\<lparr>p_id = 1, p_satellite_id = 1, p_timestamp = 1700000000,
                      p_latitude = Finite 51.5, p_longitude = Finite (- 0.25),
                      p_altitude_km = Some (Finite 408), p_velocity_kmh = None,
                      p_created_at = 200\<rparr>],
                  positions_auto_increment := 2\<rparr>)"
    by simp
qed

text \<open>
  Claim C10, as stated, fails: the string \<^verbatim>\<open>00\<close> is none of the values replaced by the
  current time, \<^verbatim>\<open>int\<close> reads it as 0, and the sample is stored and returned with
  timestamp 0 although the server's clock shows 1700000000.
\<close>

theorem create_position_zero_timestamp:
  "\<forall>conv.
     create_position conv 1700000000
       [(''satellite_id'', PStr ''1''), (''timestamp'', PStr ''00''),
        (''latitude'', PFloat (Finite 51.5)), (''longitude'', PFloat (Finite (- 0.25)))] seeded_db =
      (Response (PDict [(''id'', PInt 1), (''satellite_id'', PInt 1), (''timestamp'', PInt 0),
                        (''latitude'', PFloat (Finite 51.5)),
                        (''longitude'', PFloat (Finite (- 0.25))),
                        (''altitude_km'', PNone), (''velocity_kmh'', PNone)]) 201,
       seeded_db\<lparr>positions :=
                   [\<lparr>p_id = 1, p_satellite_id = 1, p_timestamp = 0,
                     p_latitude = Finite 51.5, p_longitude = Finite (- 0.25),
                     p_altitude_km = None, p_velocity_kmh = None, p_created_at = 200\<rparr>],
                 positions_auto_increment := 2\<rparr>)"
proof
  fix conv :: to_float
  let ?data = "[(''satellite_id'', PStr ''1''), (''timestamp'', PStr ''00''),
             (''latitude'', PFloat (Finite 51.5)), (''longitude'', PFloat (Finite (- 0.25)))]"
  have t: "position_timestamp 1700000000 ?data = Inr 0"
    by (simp add: position_timestamp_def in_none_empty_zero_def dict_get_def
        dict_get_default_def int_of_str_def signed_digitpart_def
        py_strip_def is_space_def digitpart_def is_digit_def digit_val_def)
  have f: "fits_int 0" by (simp add: fits_int_def)
  have s: "py_int (dict_get ?data ''satellite_id'') = Inr 1"
    by (simp add: dict_get_def dict_get_default_def int_of_str_def signed_digitpart_def
        py_strip_def is_space_def digitpart_def is_digit_def digit_val_def)
  have m: "1 \<in> set (map s_id (satellites seeded_db))"
    by (simp add: seeded_db_def)
  have la: "py_float conv (dict_get ?data ''latitude'') = Inr (Finite 51.5)"
    by (simp add: dict_get_def dict_get_default_def)
  have lg: "py_float conv (dict_get ?data ''longitude'') = Inr (Finite (- 0.25))"
    by (simp add: dict_get_def dict_get_default_def)
  have al: "optional_float conv (dict_get ?data ''altitude_km'') = Inr None"
    by (simp add: optional_float_def in_none_empty_def dict_get_def dict_get_default_def)
  have ve: "optional_float conv (dict_get ?data ''velocity_kmh'') = Inr None"
    by (simp add: optional_float_def in_none_empty_def dict_get_def dict_get_default_def)
  from create_position_created [OF s t f la _ lg _ al _ ve _ m]
  show "create_position conv 1700000000 ?data seeded_db =
      (Response (PDict [(''id'', PInt 1), (''satellite_id'', PInt 1), (''timestamp'', PInt 0),
                        (''latitude'', PFloat (Finite 51.5)),
                        (''longitude'', PFloat (Finite (- 0.25))),
                        (''altitude_km'', PNone), (''velocity_kmh'', PNone)]) 201,
       seeded_db\<lparr>positions :=
                   [\<lparr>p_id = 1, p_satellite_id = 1, p_timestamp = 0,
                     p_latitude = Finite 51.5, p_longitude = Finite (- 0.25),
                     p_altitude_km = None, p_velocity_kmh = None, p_created_at = 200\<rparr>],
                 positions_auto_increment := 2\<rparr>)"
    by (simp add: opt_float_def seeded_db_def)
qed

section \<open>Reading a created position back\<close>

lemma length_filter_sort_key:
  "length (filter P (sort_key f xs)) = length (filter P xs)"
proof -
  have "mset (filter P (sort_key f xs)) = mset (filter P xs)"
    by (simp only: mset_filter mset_sort)
  then have "size (mset (filter P (sort_key f xs))) = size (mset (filter P xs))"
    by (rule arg_cong)
  then show ?thesis by (simp only: size_mset)
qed

lemma length_filter_take_le:
  "length (filter P (take n s)) \<le> length (filter P s)"
proof -
  have "filter P (take n s) @ filter P (drop n s) = filter P s"
    by (simp only: filter_append [symmetric] append_take_drop_id)
  then have "length (filter P (take n s)) + length (filter P (drop n s)) = length (filter P s)"
    by (metis length_append)
  then show ?thesis by linarith
qed

lemma in_newest_window:
  fixes f :: "'a \<Rightarrow> int"
  assumes "x \<in> set xs" and "length (filter (\<lambda>y. f y \<le> f x) xs) \<le> k"
  shows "x \<in> set (take k (sort_key f xs))"
proof -
  let ?s = "sort_key f xs"
  let ?P = "\<lambda>y. f y \<le> f x"
  from assms(1) have "x \<in> set ?s" by simp
  then obtain i where i: "i < length ?s" "?s ! i = x"
    by (metis in_set_conv_nth)
  have srt: "sorted (map f ?s)" by (rule sorted_sort_key)
  have "\<forall>y \<in> set (take (Suc i) ?s). ?P y"
  proof
    fix y
    assume "y \<in> set (take (Suc i) ?s)"
    then obtain j where j: "j < Suc i" "j < length ?s" "y = ?s ! j"
      by (auto simp: in_set_conv_nth)
    have "map f ?s ! j \<le> map f ?s ! i"
      using srt j(1) i(1) by (intro sorted_nth_mono) simp_all
    with i j show "?P y" by simp
  qed
  then have "filter ?P (take (Suc i) ?s) = take (Suc i) ?s"
    by (simp only: filter_id_conv)
  then have "length (filter ?P (take (Suc i) ?s)) = Suc i"
    using i(1) by simp
  moreover have "length (filter ?P (take (Suc i) ?s)) \<le> length (filter ?P ?s)"
    by (rule length_filter_take_le)
  moreover have "length (filter ?P ?s) = length (filter ?P xs)"
    by (rule length_filter_sort_key)
  ultimately have "i < k" using assms(2) by linarith
  with i have "take k ?s ! i = x" "i < length (take k ?s)" by simp_all
  then show ?thesis by (metis nth_mem)
qed

lemma outside_newest_window:
  fixes f :: "'a \<Rightarrow> int"
  assumes "k \<le> length (filter (\<lambda>y. f y < c) xs)"
  shows "\<forall>z \<in> set (take k (sort_key f xs)). f z < c"
proof
  let ?s = "sort_key f xs"
  let ?Q = "\<lambda>y. f y < c"
  fix z
  assume "z \<in> set (take k ?s)"
  then obtain j where j: "j < k" "j < length ?s" "z = ?s ! j"
    by (auto simp: in_set_conv_nth)
  have srt: "sorted (map f ?s)" by (rule sorted_sort_key)
  show "f z < c"
  proof (rule ccontr)
    assume "\<not> f z < c"
    then have ge: "c \<le> f z" by simp
    have "\<forall>y \<in> set (drop j ?s). \<not> ?Q y"
    proof
      fix y
      assume "y \<in> set (drop j ?s)"
      then obtain m where m: "m < length ?s - j" "y = ?s ! (j + m)"
        by (auto simp: in_set_conv_nth)
      have "map f ?s ! j \<le> map f ?s ! (j + m)"
        using srt m(1) by (intro sorted_nth_mono) simp_all
      with j m ge show "\<not> ?Q y" by simp
    qed
    then have "filter ?Q (drop j ?s) = []"
      by (simp only: filter_empty_conv)
    moreover have "filter ?Q (take j ?s) @ filter ?Q (drop j ?s) = filter ?Q ?s"
      by (simp only: filter_append [symmetric] append_take_drop_id)
    ultimately have "filter ?Q ?s = filter ?Q (take j ?s)" by simp
    then have "length (filter ?Q ?s) \<le> j"
      by (metis length_filter_le length_take min.cobounded2 order_trans)
    moreover have "length (filter ?Q ?s) = length (filter ?Q xs)"
      by (rule length_filter_sort_key)
    ultimately show False using assms j(1) by linarith
  qed
qed

lemma list_positions_by_satellite_id:
  assumes "map_of args ''satellite_id'' = Some k" and "int_of_str k = Some sid"
    and "py_int (args_get_default args ''limit'' (PInt 50)) = Inr limit"
  shows "list_positions args d =
           Response (PList (map position_row
             (take (nat (max 1 (min limit 1000)))
                (order_by_timestamp_desc
                   (filter (\<lambda>p. p_satellite_id p = sid) (positions d)))))) 200"
proof -
  from assms(2) have "k \<noteq> []" by (rule int_of_str_nonempty)
  with assms(1,2) have sat: "args_get args ''satellite_id'' = PStr k" "truthy (PStr k)"
    "py_int (PStr k) = Inr sid"
    by (simp_all add: args_get_def args_get_default_def)
  with assms(3) have "list_positions args d
      = select_positions (PStr k) (clamp_limit limit 1000) d"
    by (simp add: list_positions_def)
  also have "\<dots> = Response (PList (map position_row
             (take (nat (max 1 (min limit 1000)))
                (order_by_timestamp_desc
                   (filter (\<lambda>p. p_satellite_id p = sid) (positions d)))))) 200"
    unfolding select_positions_def using sat by (simp add: clamp_limit_def)
  finally show ?thesis .
qed

text \<open>
  Claim C9, as amended.  A valid create request (a satellite key that converts and is
  stored, a timestamp that is defaulted or converts and lies within the range of the
  \<^verbatim>\<open>INT\<close> column, latitude and longitude that convert to finite floats, altitude and
  velocity blank or finite) is answered with status 201 and the created record; a
  positions query for that satellite directly afterwards, with a limit (an integer
  \<open>limit\<close>, or 50 when absent), returns a row with the same key, owner, timestamp,
  latitude, longitude, altitude and velocity, provided that fewer than
  \<open>max 1 (min limit 1000)\<close> samples of that satellite stored before have a timestamp at
  least as large as the new one.
\<close>

theorem create_position_read_back:
  assumes "py_int (dict_get data ''satellite_id'') = Inr sid"
    and "sid \<in> set (map s_id (satellites d))"
    and "position_timestamp now data = Inr ts"
    and "- 2147483648 \<le> ts" and "ts \<le> 2147483647"
    and "py_float conv (dict_get data ''latitude'') = Inr lat" and "is_finite lat"
    and "py_float conv (dict_get data ''longitude'') = Inr lon" and "is_finite lon"
    and "optional_float conv (dict_get data ''altitude_km'') = Inr alt" and "opt_finite alt"
    and "optional_float conv (dict_get data ''velocity_kmh'') = Inr vel" and "opt_finite vel"
    and "map_of args ''satellite_id'' = Some k" and "int_of_str k = Some sid"
    and "py_int (args_get_default args ''limit'' (PInt 50)) = Inr limit"
    and "length (filter (\<lambda>p. p_satellite_id p = sid \<and> ts \<le> p_timestamp p) (positions d))
           < nat (max 1 (min limit 1000))"
  shows "fst (create_position conv now data d) =
           Response (PDict [(''id'', PInt (positions_auto_increment d)),
                            (''satellite_id'', PInt sid), (''timestamp'', PInt ts),
                            (''latitude'', PFloat lat), (''longitude'', PFloat lon),
                            (''altitude_km'', opt_float alt),
                            (''velocity_kmh'', opt_float vel)]) 201
       \<and> (\<exists>rows. list_positions args (snd (create_position conv now data d))
                     = Response (PList rows) 200
                 \<and> PDict [(''id'', PInt (positions_auto_increment d)),
                          (''satellite_id'', PInt sid), (''timestamp'', PInt ts),
                          (''latitude'', PFloat lat), (''longitude'', PFloat lon),
                          (''altitude_km'', opt_float alt),
                          (''velocity_kmh'', opt_float vel),
                          (''created_at'', PDatetime (current_timestamp d))] \<in> set rows)"
proof -
  let ?new = "\<lparr>p_id = positions_auto_increment d, p_satellite_id = sid,
                     p_timestamp = ts, p_latitude = lat, p_longitude = lon,
                     p_altitude_km = alt, p_velocity_kmh = vel,
                     p_created_at = current_timestamp d\<rparr>"
  let ?d' = "d\<lparr>positions := positions d @ [?new],
                positions_auto_increment := positions_auto_increment d + 1\<rparr>"
  let ?k = "nat (max 1 (min limit 1000))"
  let ?f = "\<lambda>p. - p_timestamp p"
  let ?xs = "filter (\<lambda>p. p_satellite_id p = sid) (positions ?d')"
  from assms(4,5) have fits: "fits_int ts"
    by (simp add: fits_int_def)
  have created: "create_position conv now data d =
           (Response (PDict [(''id'', PInt (positions_auto_increment d)),
                             (''satellite_id'', PInt sid), (''timestamp'', PInt ts),
                             (''latitude'', PFloat lat), (''longitude'', PFloat lon),
                             (''altitude_km'', opt_float alt),
                             (''velocity_kmh'', opt_float vel)]) 201, ?d')"
    using assms(1,3) fits assms(6,7,8,9,10,11,12,13,2) by (rule create_position_created)
  have xs: "?xs = filter (\<lambda>p. p_satellite_id p = sid) (positions d) @ [?new]"
    by simp
  have mem: "?new \<in> set ?xs" unfolding xs by simp
  have "filter (\<lambda>y. ?f y \<le> ?f ?new) ?xs
      = filter (\<lambda>p. p_satellite_id p = sid \<and> ts \<le> p_timestamp p) (positions d) @ [?new]"
    unfolding xs by (simp add: conj_commute)
  then have "length (filter (\<lambda>y. ?f y \<le> ?f ?new) ?xs) \<le> ?k"
    using assms(17) by simp
  with mem have "?new \<in> set (take ?k (sort_key ?f ?xs))"
    by (rule in_newest_window)
  then have "position_row ?new \<in> set (map position_row (take ?k (order_by_timestamp_desc ?xs)))"
    unfolding order_by_timestamp_desc_def by (simp only: set_map image_eqI)
  moreover have "list_positions args ?d' =
      Response (PList (map position_row (take ?k (order_by_timestamp_desc ?xs)))) 200"
    using assms(14,15,16) by (rule list_positions_by_satellite_id)
  moreover have "position_row ?new = PDict [(''id'', PInt (positions_auto_increment d)),
                          (''satellite_id'', PInt sid), (''timestamp'', PInt ts),
                          (''latitude'', PFloat lat), (''longitude'', PFloat lon),
                          (''altitude_km'', opt_float alt),
                          (''velocity_kmh'', opt_float vel),
                          (''created_at'', PDatetime (current_timestamp d))]"
    by (simp add: position_row_def)
  ultimately have "\<exists>rows. list_positions args ?d' = Response (PList rows) 200
                 \<and> PDict [(''id'', PInt (positions_auto_increment d)),
                          (''satellite_id'', PInt sid), (''timestamp'', PInt ts),
                          (''latitude'', PFloat lat), (''longitude'', PFloat lon),
                          (''altitude_km'', opt_float alt),
                          (''velocity_kmh'', opt_float vel),
                          (''created_at'', PDatetime (current_timestamp d))] \<in> set rows"
    by metis
  with created show ?thesis by simp
qed

theorem create_position_read_back_witness:
  "\<forall>conv.
   fst (create_position conv 1700000000
         [(''satellite_id'', PInt 1), (''timestamp'', PStr ''15''), (''latitude'', PFloat (Finite 51.5)),
          (''longitude'', PFloat (Finite (- 0.25))), (''altitude_km'', PInt 408)] shared_db) =
     Response (PDict [(''id'', PInt 5), (''satellite_id'', PInt 1), (''timestamp'', PInt 15),
                      (''latitude'', PFloat (Finite 51.5)),
                      (''longitude'', PFloat (Finite (- 0.25))),
                      (''altitude_km'', PFloat (Finite 408)), (''velocity_kmh'', PNone)]) 201
   \<and> (\<exists>rows. list_positions [(''satellite_id'', ''1''), (''limit'', ''3'')]
                (snd (create_position conv 1700000000
                 [(''satellite_id'', PInt 1), (''timestamp'', PStr ''15''),
                  (''latitude'', PFloat (Finite 51.5)),
                  (''longitude'', PFloat (Finite (- 0.25))), (''altitude_km'', PInt 408)] shared_db))
               = Response (PList rows) 200
           \<and> PDict [(''id'', PInt 5), (''satellite_id'', PInt 1), (''timestamp'', PInt 15),
                    (''latitude'', PFloat (Finite 51.5)),
                    (''longitude'', PFloat (Finite (- 0.25))),
                    (''altitude_km'', PFloat (Finite 408)), (''velocity_kmh'', PNone),
                    (''created_at'', PDatetime 200)] \<in> set rows)"
proof
  fix conv :: to_float
  let ?data = "[(''satellite_id'', PInt 1), (''timestamp'', PStr ''15''),
                (''latitude'', PFloat (Finite 51.5)),
                (''longitude'', PFloat (Finite (- 0.25))), (''altitude_km'', PInt 408)]"
  let ?args = "[(''satellite_id'', ''1''), (''limit'', ''3'')]"
  have h1: "py_int (dict_get ?data ''satellite_id'') = Inr 1"
    by (simp add: dict_get_def dict_get_default_def)
  have h2: "1 \<in> set (map s_id (satellites shared_db))"
    by (simp add: shared_db_def)
  have h3: "position_timestamp 1700000000 ?data = Inr 15"
    by (simp add: position_timestamp_def in_none_empty_zero_def dict_get_def
        dict_get_default_def int_of_str_def signed_digitpart_def
        py_strip_def is_space_def digitpart_def is_digit_def digit_val_def)
  have lo: "- 2147483648 \<le> (15::int)" and hi: "(15::int) \<le> 2147483647"
    by simp_all
  have h4: "py_float conv (dict_get ?data ''latitude'') = Inr (Finite 51.5)"
    by (simp add: dict_get_def dict_get_default_def)
  have h5: "py_float conv (dict_get ?data ''longitude'') = Inr (Finite (- 0.25))"
    by (simp add: dict_get_def dict_get_default_def)
  have h6: "optional_float conv (dict_get ?data ''altitude_km'') = Inr (Some (Finite 408))"
    by (simp add: optional_float_def in_none_empty_def dict_get_def dict_get_default_def)
  have h7: "optional_float conv (dict_get ?data ''velocity_kmh'') = Inr None"
    by (simp add: optional_float_def in_none_empty_def dict_get_def dict_get_default_def)
  have h8: "map_of ?args ''satellite_id'' = Some ''1''" by simp
  have h9: "int_of_str ''1'' = Some 1"
    by (simp add: int_of_str_def signed_digitpart_def py_strip_def is_space_def digitpart_def
        is_digit_def digit_val_def)
  have h10: "py_int (args_get_default ?args ''limit'' (PInt 50)) = Inr 3"
    by (simp add: args_get_default_def int_of_str_def signed_digitpart_def py_strip_def
        is_space_def digitpart_def is_digit_def digit_val_def)
  have h11: "length (filter (\<lambda>p. p_satellite_id p = 1 \<and> 15 \<le> p_timestamp p) (positions shared_db))
           < nat (max 1 (min 3 1000))"
    by (simp add: shared_db_def)
  have inc: "positions_auto_increment shared_db = 5" "current_timestamp shared_db = 200"
    by (simp_all add: shared_db_def)
  from create_position_read_back [OF h1 h2 h3 lo hi h4 _ h5 _ h6 _ h7 _ h8 h9 h10 h11]
  show "fst (create_position conv 1700000000 ?data shared_db) =
     Response (PDict [(''id'', PInt 5), (''satellite_id'', PInt 1), (''timestamp'', PInt 15),
                      (''latitude'', PFloat (Finite 51.5)),
                      (''longitude'', PFloat (Finite (- 0.25))),
                      (''altitude_km'', PFloat (Finite 408)), (''velocity_kmh'', PNone)]) 201
   \<and> (\<exists>rows. list_positions ?args (snd (create_position conv 1700000000 ?data shared_db))
               = Response (PList rows) 200
           \<and> PDict [(''id'', PInt 5), (''satellite_id'', PInt 1), (''timestamp'', PInt 15),
                    (''latitude'', PFloat (Finite 51.5)),
                    (''longitude'', PFloat (Finite (- 0.25))),
                    (''altitude_km'', PFloat (Finite 408)), (''velocity_kmh'', PNone),
                    (''created_at'', PDatetime 200)] \<in> set rows)"
    by (simp add: inc opt_float_def)
qed

text \<open>
  Claim C9, as stated, fails in two ways.  The positions query returns only the newest
  rows: in a store where satellite 1 already has a thousand samples, a sample created
  with an older timestamp is answered with status 201 and key 1001, yet the query for
  satellite 1 with the largest limit, 1000, returns a thousand rows none of which is the
  created one.  And a supplied timestamp is stored in an \<^verbatim>\<open>INT\<close> column: the timestamp
  1700000000000 (milliseconds) is refused by a server in strict mode, the request ending
  in an unhandled \<^verbatim>\<open>DataError\<close> with nothing stored, and is clipped by a server not in
  strict mode, where the create returns 1700000000000 and the query returns 2147483647.
\<close>

theorem create_position_not_read_back:
  "\<forall>conv.
   (fst (create_position conv 1700002000
         [(''satellite_id'', PInt 1), (''timestamp'', PInt 1600000000),
          (''latitude'', PFloat (Finite 51.5)), (''longitude'', PFloat (Finite (- 0.25)))]
         crowded_db) =
     Response (PDict [(''id'', PInt 1001), (''satellite_id'', PInt 1),
                      (''timestamp'', PInt 1600000000),
                      (''latitude'', PFloat (Finite 51.5)),
                      (''longitude'', PFloat (Finite (- 0.25))),
                      (''altitude_km'', PNone), (''velocity_kmh'', PNone)]) 201
   \<and> (\<exists>rows. list_positions [(''satellite_id'', ''1''), (''limit'', ''1000'')]
                (snd (create_position conv 1700002000
                 [(''satellite_id'', PInt 1), (''timestamp'', PInt 1600000000),
                  (''latitude'', PFloat (Finite 51.5)), (''longitude'', PFloat (Finite (- 0.25)))]
                 crowded_db))
               = Response (PList rows) 200
           \<and> length rows = 1000
           \<and> PDict [(''id'', PInt 1001), (''satellite_id'', PInt 1),
                    (''timestamp'', PInt 1600000000),
                    (''latitude'', PFloat (Finite 51.5)),
                    (''longitude'', PFloat (Finite (- 0.25))),
                    (''altitude_km'', PNone), (''velocity_kmh'', PNone),
                    (''created_at'', PDatetime 200)] \<notin> set rows))
   \<and> create_position conv 1700002000
         [(''satellite_id'', PInt 1), (''timestamp'', PInt 1700000000000),
          (''latitude'', PFloat (Finite 51.5)), (''longitude'', PFloat (Finite (- 0.25)))]
         seeded_db = (Unhandled DataError, seeded_db)
   \<and> fst (create_position conv 1700002000
         [(''satellite_id'', PInt 1), (''timestamp'', PInt 1700000000000),
          (''latitude'', PFloat (Finite 51.5)), (''longitude'', PFloat (Finite (- 0.25)))]
         (seeded_db\<lparr>sql_strict := False\<rparr>)) =
     Response (PDict [(''id'', PInt 1), (''satellite_id'', PInt 1),
                      (''timestamp'', PInt 1700000000000),
                      (''latitude'', PFloat (Finite 51.5)),
                      (''longitude'', PFloat (Finite (- 0.25))),
                      (''altitude_km'', PNone), (''velocity_kmh'', PNone)]) 201
   \<and> list_positions [(''satellite_id'', ''1'')]
        (snd (create_position conv 1700002000
         [(''satellite_id'', PInt 1), (''timestamp'', PInt 1700000000000),
          (''latitude'', PFloat (Finite 51.5)), (''longitude'', PFloat (Finite (- 0.25)))]
         (seeded_db\<lparr>sql_strict := False\<rparr>))) =
     Response (PList [PDict [(''id'', PInt 1), (''satellite_id'', PInt 1),
                             (''timestamp'', PInt 2147483647),
                             (''latitude'', PFloat (Finite 51.5)),
                             (''longitude'', PFloat (Finite (- 0.25))),
                             (''altitude_km'', PNone), (''velocity_kmh'', PNone),
                             (''created_at'', PDatetime 200)]]) 200"
proof
  fix conv :: to_float
  let ?data = "[(''satellite_id'', PInt 1), (''timestamp'', PInt 1600000000),
          (''latitude'', PFloat (Finite 51.5)), (''longitude'', PFloat (Finite (- 0.25)))]"
  let ?args = "[(''satellite_id'', ''1''), (''limit'', ''1000'')]"
  let ?new = "\<lparr>p_id = 1001, p_satellite_id = 1, p_timestamp = 1600000000,
               p_latitude = Finite 51.5, p_longitude = Finite (- 0.25),
               p_altitude_km = None, p_velocity_kmh = None, p_created_at = 200\<rparr>"
  let ?d' = "crowded_db\<lparr>positions := positions crowded_db @ [?new],
                         positions_auto_increment := positions_auto_increment crowded_db + 1\<rparr>"
  let ?f = "\<lambda>p. - p_timestamp p"
  let ?xs = "filter (\<lambda>p. p_satellite_id p = 1) (positions ?d')"
  let ?rows = "map position_row (take 1000 (order_by_timestamp_desc ?xs))"
  have h1: "py_int (dict_get ?data ''satellite_id'') = Inr 1"
    by (simp add: dict_get_def dict_get_default_def)
  have h2: "1 \<in> set (map s_id (satellites crowded_db))"
    by (simp add: crowded_db_def)
  have h3: "position_timestamp 1700002000 ?data = Inr 1600000000"
    by (simp add: position_timestamp_def in_none_empty_zero_def dict_get_def
        dict_get_default_def)
  have f3: "fits_int 1600000000"
    by (simp add: fits_int_def)
  have h4: "py_float conv (dict_get ?data ''latitude'') = Inr (Finite 51.5)"
    by (simp add: dict_get_def dict_get_default_def)
  have h5: "py_float conv (dict_get ?data ''longitude'') = Inr (Finite (- 0.25))"
    by (simp add: dict_get_def dict_get_default_def)
  have h6: "optional_float conv (dict_get ?data ''altitude_km'') = Inr None"
    by (simp add: optional_float_def in_none_empty_def dict_get_def dict_get_default_def)
  have h7: "optional_float conv (dict_get ?data ''velocity_kmh'') = Inr None"
    by (simp add: optional_float_def in_none_empty_def dict_get_def dict_get_default_def)
  have inc: "positions_auto_increment crowded_db = 1001" "current_timestamp crowded_db = 200"
    by (simp_all add: crowded_db_def)
  have "create_position conv 1700002000 ?data crowded_db =
      (Response (PDict [(''id'', PInt (positions_auto_increment crowded_db)),
                        (''satellite_id'', PInt 1), (''timestamp'', PInt 1600000000),
                        (''latitude'', PFloat (Finite 51.5)),
                        (''longitude'', PFloat (Finite (- 0.25))),
                        (''altitude_km'', opt_float None),
                        (''velocity_kmh'', opt_float None)]) 201,
       crowded_db\<lparr>positions := positions crowded_db @
                     [\<lparr>p_id = positions_auto_increment crowded_db, p_satellite_id = 1,
                       p_timestamp = 1600000000, p_latitude = Finite 51.5,
                       p_longitude = Finite (- 0.25), p_altitude_km = None,
                       p_velocity_kmh = None,
                       p_created_at = current_timestamp crowded_db\<rparr>],
                  positions_auto_increment := positions_auto_increment crowded_db + 1\<rparr>)"
    by (rule create_position_created [OF h1 h3 f3 h4 _ h5 _ h6 _ h7 _ h2]) simp_all
  then have created: "create_position conv 1700002000 ?data crowded_db =
      (Response (PDict [(''id'', PInt 1001), (''satellite_id'', PInt 1),
                      (''timestamp'', PInt 1600000000),
                      (''latitude'', PFloat (Finite 51.5)),
                      (''longitude'', PFloat (Finite (- 0.25))),
                      (''altitude_km'', PNone), (''velocity_kmh'', PNone)]) 201, ?d')"
    by (simp add: inc opt_float_def)
  have old: "\<forall>p \<in> set (positions crowded_db). p_satellite_id p = 1 \<and> 1600000000 < p_timestamp p"
    by (auto simp: crowded_db_def)
  have len: "length (positions crowded_db) = 1000"
    by (simp add: crowded_db_def)
  from old have keep: "filter (\<lambda>p. p_satellite_id p = 1) (positions crowded_db) = positions crowded_db"
    by (simp only: filter_id_conv) blast
  have xs: "?xs = positions crowded_db @ [?new]"
    by (simp add: keep)
  from old have "filter (\<lambda>y. ?f y < - 1600000000) (positions crowded_db) = positions crowded_db"
    by (simp only: filter_id_conv) auto
  then have "filter (\<lambda>y. ?f y < - 1600000000) ?xs = positions crowded_db"
    unfolding xs by simp
  then have "1000 \<le> length (filter (\<lambda>y. ?f y < - 1600000000) ?xs)"
    by (simp only: len)
  then have newer: "\<forall>z \<in> set (take 1000 (sort_key ?f ?xs)). ?f z < - 1600000000"
    by (rule outside_newest_window)
  have h8: "map_of ?args ''satellite_id'' = Some ''1''" by simp
  have h9: "int_of_str ''1'' = Some 1"
    by (simp add: int_of_str_def signed_digitpart_def py_strip_def is_space_def digitpart_def
        is_digit_def digit_val_def)
  have h10: "py_int (args_get_default ?args ''limit'' (PInt 50)) = Inr 1000"
    by (simp add: args_get_default_def int_of_str_def signed_digitpart_def py_strip_def
        is_space_def digitpart_def is_digit_def digit_val_def)
  from list_positions_by_satellite_id [OF h8 h9 h10, of ?d']
  have listed: "list_positions ?args ?d' = Response (PList ?rows) 200"
    by simp
  have "length ?xs = 1001" unfolding xs by (simp add: len)
  then have n: "length ?rows = 1000"
    by (simp add: order_by_timestamp_desc_def)
  have absent: "position_row ?new \<notin> set ?rows"
  proof
    assume "position_row ?new \<in> set ?rows"
    then obtain z where z: "z \<in> set (take 1000 (sort_key ?f ?xs))"
      "position_row z = position_row ?new"
      unfolding order_by_timestamp_desc_def by auto
    from z(2) have "p_timestamp z = 1600000000"
      by (simp add: position_row_def)
    with newer z(1) show False by auto
  qed
  have "position_row ?new = PDict [(''id'', PInt 1001), (''satellite_id'', PInt 1),
                    (''timestamp'', PInt 1600000000),
                    (''latitude'', PFloat (Finite 51.5)),
                    (''longitude'', PFloat (Finite (- 0.25))),
                    (''altitude_km'', PNone), (''velocity_kmh'', PNone),
                    (''created_at'', PDatetime 200)]"
    by (simp add: position_row_def opt_float_def)
  with absent have absent': "PDict [(''id'', PInt 1001), (''satellite_id'', PInt 1),
                    (''timestamp'', PInt 1600000000),
                    (''latitude'', PFloat (Finite 51.5)),
                    (''longitude'', PFloat (Finite (- 0.25))),
                    (''altitude_km'', PNone), (''velocity_kmh'', PNone),
                    (''created_at'', PDatetime 200)] \<notin> set ?rows"
    by simp
  from listed n absent' have window: "\<exists>rows. list_positions ?args ?d' = Response (PList rows) 200
           \<and> length rows = 1000
           \<and> PDict [(''id'', PInt 1001), (''satellite_id'', PInt 1),
                    (''timestamp'', PInt 1600000000),
                    (''latitude'', PFloat (Finite 51.5)),
                    (''longitude'', PFloat (Finite (- 0.25))),
                    (''altitude_km'', PNone), (''velocity_kmh'', PNone),
                    (''created_at'', PDatetime 200)] \<notin> set rows"
    by blast
  with created have part1:
    "fst (create_position conv 1700002000 ?data crowded_db) =
     Response (PDict [(''id'', PInt 1001), (''satellite_id'', PInt 1),
                      (''timestamp'', PInt 1600000000),
                      (''latitude'', PFloat (Finite 51.5)),
                      (''longitude'', PFloat (Finite (- 0.25))),
                      (''altitude_km'', PNone), (''velocity_kmh'', PNone)]) 201
   \<and> (\<exists>rows. list_positions ?args (snd (create_position conv 1700002000 ?data crowded_db))
               = Response (PList rows) 200
           \<and> length rows = 1000
           \<and> PDict [(''id'', PInt 1001), (''satellite_id'', PInt 1),
                    (''timestamp'', PInt 1600000000),
                    (''latitude'', PFloat (Finite 51.5)),
                    (''longitude'', PFloat (Finite (- 0.25))),
                    (''altitude_km'', PNone), (''velocity_kmh'', PNone),
                    (''created_at'', PDatetime 200)] \<notin> set rows)"
    by simp
  let ?big = "[(''satellite_id'', PInt 1), (''timestamp'', PInt 1700000000000),
          (''latitude'', PFloat (Finite 51.5)), (''longitude'', PFloat (Finite (- 0.25)))]"
  let ?loose = "seeded_db\<lparr>sql_strict := False\<rparr>"
  let ?clipped = "\<lparr>p_id = 1, p_satellite_id = 1, p_timestamp = 2147483647,
               p_latitude = Finite 51.5, p_longitude = Finite (- 0.25),
               p_altitude_km = None, p_velocity_kmh = None, p_created_at = 200\<rparr>"
  have parsed: "position_satellite_id ?big = Inr 1"
    "position_timestamp 1700002000 ?big = Inr 1700000000000"
    "position_lat_lon conv ?big = Inr (Finite 51.5, Finite (- 0.25))"
    "optional_float conv (dict_get ?big ''altitude_km'') = Inr None"
    "optional_float conv (dict_get ?big ''velocity_kmh'') = Inr None"
    by (simp_all add: position_satellite_id_def position_timestamp_def position_lat_lon_def
        optional_float_def in_none_empty_def in_none_empty_zero_def dict_get_def
        dict_get_default_def)
  have part2: "create_position conv 1700002000 ?big seeded_db = (Unhandled DataError, seeded_db)"
    using parsed
    by (simp add: create_position_def insert_position_def store_int_def fits_int_def
        seeded_db_def)
  have loose: "create_position conv 1700002000 ?big ?loose =
     (Response (PDict [(''id'', PInt 1), (''satellite_id'', PInt 1),
                      (''timestamp'', PInt 1700000000000),
                      (''latitude'', PFloat (Finite 51.5)),
                      (''longitude'', PFloat (Finite (- 0.25))),
                      (''altitude_km'', PNone), (''velocity_kmh'', PNone)]) 201,
      ?loose\<lparr>positions := [?clipped], positions_auto_increment := 2\<rparr>)"
    using parsed
    by (simp add: create_position_def insert_position_def store_int_def fits_int_def
        seeded_db_def opt_float_def)
  have part3: "fst (create_position conv 1700002000 ?big ?loose) =
     Response (PDict [(''id'', PInt 1), (''satellite_id'', PInt 1),
                      (''timestamp'', PInt 1700000000000),
                      (''latitude'', PFloat (Finite 51.5)),
                      (''longitude'', PFloat (Finite (- 0.25))),
                      (''altitude_km'', PNone), (''velocity_kmh'', PNone)]) 201"
    by (simp only: loose fst_conv)
  have g8: "map_of [(''satellite_id'', ''1'')] ''satellite_id'' = Some ''1''" by simp
  have g10: "py_int (args_get_default [(''satellite_id'', ''1'')] ''limit'' (PInt 50)) = Inr 50"
    by (simp add: args_get_default_def)
  from list_positions_by_satellite_id [OF g8 h9 g10,
      of "?loose\<lparr>positions := [?clipped], positions_auto_increment := 2\<rparr>"]
  have "list_positions [(''satellite_id'', ''1'')]
          (?loose\<lparr>positions := [?clipped], positions_auto_increment := 2\<rparr>) =
     Response (PList [PDict [(''id'', PInt 1), (''satellite_id'', PInt 1),
                             (''timestamp'', PInt 2147483647),
                             (''latitude'', PFloat (Finite 51.5)),
                             (''longitude'', PFloat (Finite (- 0.25))),
                             (''altitude_km'', PNone), (''velocity_kmh'', PNone),
                             (''created_at'', PDatetime 200)]]) 200"
    by (simp add: order_by_timestamp_desc_def position_row_def opt_float_def)
  then have part4: "list_positions [(''satellite_id'', ''1'')]
        (snd (create_position conv 1700002000 ?big ?loose)) =
     Response (PList [PDict [(''id'', PInt 1), (''satellite_id'', PInt 1),
                             (''timestamp'', PInt 2147483647),
                             (''latitude'', PFloat (Finite 51.5)),
                             (''longitude'', PFloat (Finite (- 0.25))),
                             (''altitude_km'', PNone), (''velocity_kmh'', PNone),
                             (''created_at'', PDatetime 200)]]) 200"
    by (simp only: loose snd_conv)
  from part1 part2 part3 part4
  show "(fst (create_position conv 1700002000 ?data crowded_db) =
     Response (PDict [(''id'', PInt 1001), (''satellite_id'', PInt 1),
                      (''timestamp'', PInt 1600000000),
                      (''latitude'', PFloat (Finite 51.5)),
                      (''longitude'', PFloat (Finite (- 0.25))),
                      (''altitude_km'', PNone), (''velocity_kmh'', PNone)]) 201
   \<and> (\<exists>rows. list_positions ?args (snd (create_position conv 1700002000 ?data crowded_db))
               = Response (PList rows) 200
           \<and> length rows = 1000
           \<and> PDict [(''id'', PInt 1001), (''satellite_id'', PInt 1),
                    (''timestamp'', PInt 1600000000),
                    (''latitude'', PFloat (Finite 51.5)),
                    (''longitude'', PFloat (Finite (- 0.25))),
                    (''altitude_km'', PNone), (''velocity_kmh'', PNone),
                    (''created_at'', PDatetime 200)] \<notin> set rows))
   \<and> create_position conv 1700002000 ?big seeded_db = (Unhandled DataError, seeded_db)
   \<and> fst (create_position conv 1700002000 ?big ?loose) =
     Response (PDict [(''id'', PInt 1), (''satellite_id'', PInt 1),
                      (''timestamp'', PInt 1700000000000),
                      (''latitude'', PFloat (Finite 51.5)),
                      (''longitude'', PFloat (Finite (- 0.25))),
                      (''altitude_km'', PNone), (''velocity_kmh'', PNone)]) 201
   \<and> list_positions [(''satellite_id'', ''1'')]
        (snd (create_position conv 1700002000 ?big ?loose)) =
     Response (PList [PDict [(''id'', PInt 1), (''satellite_id'', PInt 1),
                             (''timestamp'', PInt 2147483647),
                             (''latitude'', PFloat (Finite 51.5)),
                             (''longitude'', PFloat (Finite (- 0.25))),
                             (''altitude_km'', PNone), (''velocity_kmh'', PNone),
                             (''created_at'', PDatetime 200)]]) 200"
    by blast
qed


end
